theory Spec2Isabelle
  imports Complex_Main
begin

section \<open>The host scene\<close>

text \<open>
  The tool of \<^verbatim>\<open>ddFreeSplit.py\<close> is a sequence of calls into the host's
  command interface (\<^verbatim>\<open>maya.cmds\<close>, \<^verbatim>\<open>maya.mel\<close>). The host is
  modelled as a record of what those calls read and write: the nodes of the scene with
  their type and owner, the numeric attributes, the selection, the panels, the user
  interface controls, and a log of the modelling operators that were invoked. Floating
  point attributes are real numbers; a boolean attribute is \<open>0\<close> or \<open>1\<close>.
\<close>

type_synonym name = string

datatype node_type = Transform | CurveVarGroup | Mesh | Camera | Stroke | NurbsCurve | DependNode

text \<open>A curve-variation group is a transform-derived node of the host.\<close>

fun is_transform :: "node_type \<Rightarrow> bool" where
  "is_transform Transform = True"
| "is_transform CurveVarGroup = True"
| "is_transform _ = False"

fun is_shape :: "node_type \<Rightarrow> bool" where
  "is_shape Mesh = True"
| "is_shape Camera = True"
| "is_shape Stroke = True"
| "is_shape NurbsCurve = True"
| "is_shape _ = False"

datatype control = TextLabel string | IntField int | FloatField real | CheckBox bool

text \<open>
  The modelling operators whose invocations the properties count. A projection call
  records its arguments (curve, mesh, pointsOnEdges, curveSamples, automatic, tolerance);
  a split call records the selection and the value of the option variable
  \<^verbatim>\<open>splitPolyWithCurveOperation\<close> that the operator finds when it runs.
\<close>

datatype call =
    PolyProjectCurve name "name option" bool int bool real
  | SplitMeshWithProjectedCurve "name list" "int option"
  | MelEval string
  | Delete name
  | DeleteHistory name

record scene =
  nodes :: "name list"
  ntype :: "name \<Rightarrow> node_type"
  owner :: "name \<Rightarrow> name option"
  attrs :: "name \<times> string \<Rightarrow> real option"
  bbox :: "name \<Rightarrow> real \<times> real \<times> real \<times> real \<times> real \<times> real"
  connections :: "((name \<times> string) \<times> (name \<times> string)) list"
  history :: "name list"
  selection :: "name list"
  paintable :: "name list"
  focus_panel :: "name option"
  visible_panels :: "name list"
  panel_type :: "name \<Rightarrow> string"
  panel_camera :: "name \<Rightarrow> name option"
  ortho_lock :: bool
  auto_ortho_constrain :: bool
  dyn_wire_dam :: "bool option"
  windows :: "name list"
  controls :: "name \<Rightarrow> (name \<times> control) option"
  option_vars :: "string \<Rightarrow> int option"
  mel_raises :: "string \<Rightarrow> bool"
  warnings :: "string list"
  calls :: "call list"

text \<open>
  \<open>nodes\<close> lists the existing nodes in creation order. \<open>owner\<close> is the parent of a
  DAG node and, for a construction-history node, the node it feeds; deleting a node
  deletes what it owns. \<open>controls\<close> maps a control name to the window that holds it and
  its value. \<open>mel_raises\<close> says which MEL commands fail in this environment (a preset
  file that is not installed, an operator that rejects its selection). \<open>dyn_wire_dam\<close>
  is \<open>None\<close> when the tool context \<^verbatim>\<open>dynWireCtx1\<close> does not exist.
\<close>

subsection \<open>Names\<close>

text \<open>
  The host gives a new node the requested name when it is free and a name with a
  numeric suffix otherwise.
\<close>

fun fresh_from :: "name list \<Rightarrow> name \<Rightarrow> nat \<Rightarrow> name" where
  "fresh_from used nm 0 = nm"
| "fresh_from used nm (Suc k) = (if nm \<in> set used then fresh_from used (nm @ ''1'') k else nm)"

definition unique_name :: "name list \<Rightarrow> name \<Rightarrow> name" where
  "unique_name used nm = fresh_from used nm (length used)"

fun ends_with :: "string \<Rightarrow> string \<Rightarrow> bool" where
  "ends_with suffix str =
     (length suffix \<le> length str \<and> drop (length str - length suffix) str = suffix)"

text \<open>Python's \<^verbatim>\<open>str(n)\<close> and \<^verbatim>\<open>"{:02d}".format(n)\<close> for a natural number.\<close>

definition digit :: "nat \<Rightarrow> char" where
  "digit d = char_of (48 + d)"

fun str_nat :: "nat \<Rightarrow> string" where
  "str_nat n = (if n < 10 then [digit n] else str_nat (n div 10) @ [digit (n mod 10)])"

declare str_nat.simps [simp del]

definition format_02d :: "nat \<Rightarrow> string" where
  "format_02d n = (if n < 10 then CHR ''0'' # str_nat n else str_nat n)"

subsection \<open>Queries\<close>

definition objExists :: "scene \<Rightarrow> name \<Rightarrow> bool" where
  "objExists w n = (n \<in> set (nodes w))"

text \<open>\<^verbatim>\<open>cmds.ls(type=t)\<close>, \<^verbatim>\<open>cmds.ls(transforms=True)\<close> and
  \<^verbatim>\<open>cmds.ls(selection=True, type="transform")\<close>.\<close>

definition ls_type :: "scene \<Rightarrow> node_type \<Rightarrow> name list" where
  "ls_type w t = filter (\<lambda>n. ntype w n = t) (nodes w)"

definition ls_transforms :: "scene \<Rightarrow> name list" where
  "ls_transforms w = filter (\<lambda>n. is_transform (ntype w n)) (nodes w)"

definition ls_selection_transforms :: "scene \<Rightarrow> name list" where
  "ls_selection_transforms w =
     filter (\<lambda>n. n \<in> set (nodes w) \<and> is_transform (ntype w n)) (selection w)"

text \<open>\<^verbatim>\<open>cmds.listRelatives(n, parent=True)\<close> is \<^verbatim>\<open>None\<close> for a node without
  parent; \<^verbatim>\<open>cmds.listRelatives(n, shapes=True)\<close> lists the shapes below \<open>n\<close>.\<close>

definition listRelatives_parent :: "scene \<Rightarrow> name \<Rightarrow> name option" where
  "listRelatives_parent w n = owner w n"

definition listRelatives_shapes :: "scene \<Rightarrow> name \<Rightarrow> name list" where
  "listRelatives_shapes w n =
     filter (\<lambda>m. owner w m = Some n \<and> is_shape (ntype w m)) (nodes w)"

definition cmds_getAttr :: "scene \<Rightarrow> name \<Rightarrow> string \<Rightarrow> real option" where
  "cmds_getAttr w n a = (if objExists w n then attrs w (n, a) else None)"

definition cmds_exactWorldBoundingBox ::
  "scene \<Rightarrow> name \<Rightarrow> (real \<times> real \<times> real \<times> real \<times> real \<times> real) option" where
  "cmds_exactWorldBoundingBox w n = (if objExists w n then Some (bbox w n) else None)"

text \<open>A query of a control raises (\<open>None\<close>) when the control does not exist or is of
  another kind.\<close>

definition intField_query :: "scene \<Rightarrow> name \<Rightarrow> int option" where
  "intField_query w c = (case controls w c of Some (_, IntField v) \<Rightarrow> Some v | _ \<Rightarrow> None)"

definition floatField_query :: "scene \<Rightarrow> name \<Rightarrow> real option" where
  "floatField_query w c = (case controls w c of Some (_, FloatField v) \<Rightarrow> Some v | _ \<Rightarrow> None)"

definition checkBox_query :: "scene \<Rightarrow> name \<Rightarrow> bool option" where
  "checkBox_query w c = (case controls w c of Some (_, CheckBox v) \<Rightarrow> Some v | _ \<Rightarrow> None)"

definition window_exists :: "scene \<Rightarrow> name \<Rightarrow> bool" where
  "window_exists w n = (n \<in> set (windows w))"

subsection \<open>Commands\<close>

text \<open>
  A command that raises returns \<open>None\<close> and leaves the scene as it was. A command
  raises when it is given \<^verbatim>\<open>None\<close> or the name of a node that does not exist, a
  control command when the control does not exist, a MEL command when \<open>mel_raises\<close> says
  so. Failures of the host for other reasons (a locked attribute, a curve that cannot be
  projected) are not modelled.
\<close>

definition cmds_warning :: "scene \<Rightarrow> string \<Rightarrow> scene" where
  "cmds_warning w msg = w\<lparr>warnings := warnings w @ [msg]\<rparr>"

definition add_node :: "scene \<Rightarrow> name \<Rightarrow> node_type \<Rightarrow> name option \<Rightarrow> scene" where
  "add_node w n t p =
     w\<lparr>nodes := nodes w @ [n], ntype := (ntype w)(n := t), owner := (owner w)(n := p),
       attrs := (attrs w)((n, ''visibility'') \<mapsto> 1)\<rparr>"

definition cmds_setAttr :: "scene \<Rightarrow> name \<Rightarrow> string \<Rightarrow> real \<Rightarrow> scene option" where
  "cmds_setAttr w n a v =
     (if objExists w n then Some (w\<lparr>attrs := (attrs w)((n, a) \<mapsto> v)\<rparr>) else None)"

definition cmds_hide :: "scene \<Rightarrow> name \<Rightarrow> scene option" where
  "cmds_hide w n = cmds_setAttr w n ''visibility'' 0"

definition cmds_showHidden :: "scene \<Rightarrow> name \<Rightarrow> scene option" where
  "cmds_showHidden w n = cmds_setAttr w n ''visibility'' 1"

definition cmds_connectAttr ::
  "scene \<Rightarrow> name \<times> string \<Rightarrow> name \<times> string \<Rightarrow> scene option" where
  "cmds_connectAttr w src dst =
     (if objExists w (fst src) \<and> objExists w (fst dst)
      then Some (w\<lparr>connections := filter (\<lambda>c. snd c \<noteq> dst) (connections w) @ [(src, dst)]\<rparr>)
      else None)"

definition cmds_parent :: "scene \<Rightarrow> name \<Rightarrow> name \<Rightarrow> scene option" where
  "cmds_parent w child p =
     (if objExists w child \<and> objExists w p then Some (w\<lparr>owner := (owner w)(child \<mapsto> p)\<rparr>)
      else None)"

definition cmds_select :: "scene \<Rightarrow> name list \<Rightarrow> scene option" where
  "cmds_select w ns = (if \<forall>n \<in> set ns. objExists w n then Some (w\<lparr>selection := ns\<rparr>) else None)"

definition cmds_select_add :: "scene \<Rightarrow> name option \<Rightarrow> scene option" where
  "cmds_select_add w n =
     (case n of None \<Rightarrow> None
      | Some m \<Rightarrow> if objExists w m then Some (w\<lparr>selection := selection w @ [m]\<rparr>) else None)"

definition cmds_tumbleCtx_orthoLock :: "scene \<Rightarrow> bool \<Rightarrow> scene" where
  "cmds_tumbleCtx_orthoLock w b = w\<lparr>ortho_lock := b\<rparr>"

definition cmds_tumbleCtx_autoOrthoConstrain :: "scene \<Rightarrow> bool \<Rightarrow> scene" where
  "cmds_tumbleCtx_autoOrthoConstrain w b = w\<lparr>auto_ortho_constrain := b\<rparr>"

definition cmds_dynWireCtx_dam :: "scene \<Rightarrow> bool \<Rightarrow> scene option" where
  "cmds_dynWireCtx_dam w b =
     (case dyn_wire_dam w of None \<Rightarrow> None | Some _ \<Rightarrow> Some (w\<lparr>dyn_wire_dam := Some b\<rparr>))"

definition cmds_optionVar :: "scene \<Rightarrow> string \<Rightarrow> int \<Rightarrow> scene" where
  "cmds_optionVar w k v = w\<lparr>option_vars := (option_vars w)(k \<mapsto> v)\<rparr>"

definition text_edit_label :: "scene \<Rightarrow> name \<Rightarrow> string \<Rightarrow> scene option" where
  "text_edit_label w c l =
     (case controls w c of
        Some (win, TextLabel _) \<Rightarrow> Some (w\<lparr>controls := (controls w)(c \<mapsto> (win, TextLabel l))\<rparr>)
      | _ \<Rightarrow> None)"

text \<open>Deleting a node removes it and everything it owns, directly or not. The attribute
  values of a deleted node stay in \<open>attrs\<close>, where no command reads them any more.\<close>

fun under :: "nat \<Rightarrow> (name \<Rightarrow> name option) \<Rightarrow> name \<Rightarrow> name \<Rightarrow> bool" where
  "under 0 own n m = (m = n)"
| "under (Suc k) own n m =
     (m = n \<or> (case own m of None \<Rightarrow> False | Some p \<Rightarrow> under k own n p))"

definition removed_by :: "scene \<Rightarrow> name \<Rightarrow> name \<Rightarrow> bool" where
  "removed_by w n m = under (length (nodes w)) (owner w) n m"

definition cmds_delete :: "scene \<Rightarrow> name \<Rightarrow> scene option" where
  "cmds_delete w n =
     (if objExists w n
      then Some (w\<lparr>nodes := filter (\<lambda>m. \<not> removed_by w n m) (nodes w),
                   selection := filter (\<lambda>m. \<not> removed_by w n m) (selection w),
                   history := filter (\<lambda>m. \<not> removed_by w n m) (history w),
                   paintable := filter (\<lambda>m. \<not> removed_by w n m) (paintable w),
                   connections := filter (\<lambda>c. \<not> removed_by w n (fst (fst c)) \<and>
                                               \<not> removed_by w n (fst (snd c))) (connections w),
                   calls := calls w @ [Delete n]\<rparr>)
      else None)"

definition cmds_delete_constructionHistory :: "scene \<Rightarrow> name \<Rightarrow> scene option" where
  "cmds_delete_constructionHistory w n =
     (if objExists w n
      then Some (w\<lparr>history := filter (\<lambda>m. m \<noteq> n) (history w),
                   calls := calls w @ [DeleteHistory n]\<rparr>)
      else None)"

definition cmds_deleteUI :: "scene \<Rightarrow> name \<Rightarrow> scene option" where
  "cmds_deleteUI w win =
     (if window_exists w win
      then Some (w\<lparr>windows := filter (\<lambda>x. x \<noteq> win) (windows w),
                   controls := (\<lambda>c. case controls w c of
                                      None \<Rightarrow> None
                                    | Some (h, v) \<Rightarrow> if h = win then None else Some (h, v))\<rparr>)
      else None)"

text \<open>
  Creation commands. \<^verbatim>\<open>cmds.duplicate\<close> copies a node with its attributes and
  the nodes it owns directly (its shapes) and keeps it below the same parent;
  \<^verbatim>\<open>cmds.polyPlane\<close> with construction history creates a transform, its mesh and
  the creation node; \<^verbatim>\<open>cmds.circle\<close> without history creates a transform and its
  curve shape; \<^verbatim>\<open>cmds.polyProjectCurve\<close> creates a curve-variation group and its
  operator node, and raises when the curve or the mesh is missing. Arguments that no
  property reads (subdivisions, axis, sweep, sections) are left out.
\<close>

definition copy_node :: "scene \<Rightarrow> name \<Rightarrow> name \<Rightarrow> name option \<Rightarrow> scene" where
  "copy_node w src dst p =
     w\<lparr>nodes := nodes w @ [dst], ntype := (ntype w)(dst := ntype w src),
       owner := (owner w)(dst := p),
       attrs := (\<lambda>(m, a). if m = dst then attrs w (src, a) else attrs w (m, a)),
       bbox := (bbox w)(dst := bbox w src)\<rparr>"

definition copy_child :: "name \<Rightarrow> scene \<Rightarrow> name \<Rightarrow> scene" where
  "copy_child d w c = copy_node w c (unique_name (nodes w) c) (Some d)"

definition cmds_duplicate :: "scene \<Rightarrow> name \<Rightarrow> name \<Rightarrow> (name \<times> scene) option" where
  "cmds_duplicate w n nm =
     (if objExists w n
      then (let d = unique_name (nodes w) nm;
                w1 = copy_node w n d (owner w n)
            in Some (d, foldl (copy_child d) w1 (filter (\<lambda>m. owner w m = Some n) (nodes w))))
      else None)"

definition cmds_polyPlane :: "scene \<Rightarrow> real \<Rightarrow> real \<Rightarrow> name \<Rightarrow> (name \<times> name) \<times> scene" where
  "cmds_polyPlane w width height nm =
     (let t = unique_name (nodes w) nm;
          w1 = add_node w t Transform None;
          sh = unique_name (nodes w1) (t @ ''Shape'');
          w2 = add_node w1 sh Mesh (Some t);
          c = unique_name (nodes w2) ''polyPlane1'';
          w3 = add_node w2 c DependNode (Some sh)
      in ((t, c), w3\<lparr>attrs := (attrs w3)((c, ''width'') \<mapsto> width, (c, ''height'') \<mapsto> height),
                      history := history w3 @ [t]\<rparr>))"

definition cmds_circle :: "scene \<Rightarrow> name \<Rightarrow> name \<times> scene" where
  "cmds_circle w nm =
     (let t = unique_name (nodes w) nm;
          w1 = add_node w t Transform None;
          sh = unique_name (nodes w1) (t @ ''Shape'')
      in (t, add_node w1 sh NurbsCurve (Some t)))"

definition cmds_polyProjectCurve ::
  "scene \<Rightarrow> name \<Rightarrow> name option \<Rightarrow> bool \<Rightarrow> int \<Rightarrow> bool \<Rightarrow> real \<Rightarrow> (name \<times> name) option \<times> scene" where
  "cmds_polyProjectCurve w curve mesh pointsOnEdges curveSamples automatic tolerance =
     (let w0 = w\<lparr>calls := calls w @
                   [PolyProjectCurve curve mesh pointsOnEdges curveSamples automatic tolerance]\<rparr>
      in case mesh of
           None \<Rightarrow> (None, w0)
         | Some m \<Rightarrow>
             if objExists w curve \<and> objExists w m
             then (let g = unique_name (nodes w0) ''polyProjectionCurve1'';
                       w1 = add_node w0 g CurveVarGroup None;
                       h = unique_name (nodes w1) ''polyProjectCurve1''
                   in (Some (g, h), add_node w1 h DependNode (Some g)))
             else (None, w0))"

text \<open>
  \<^verbatim>\<open>mel.eval\<close>: the split operator is logged with the selection and the option
  variable it runs on, and leaves construction history on the selected meshes;
  \<^verbatim>\<open>MakePaintable\<close> marks the selection paintable; sourcing a preset has no effect
  on what is modelled. The result says whether the command returned.
\<close>

definition mel_effect :: "scene \<Rightarrow> string \<Rightarrow> scene" where
  "mel_effect w cmd =
     (if cmd = ''MakePaintable'' then w\<lparr>paintable := paintable w @ selection w\<rparr>
      else if cmd = ''performSplitMeshWithProjectedCurve 0''
      then w\<lparr>history := history w @ filter (\<lambda>m. ntype w m = Transform) (selection w)\<rparr>
      else w)"

definition mel_eval :: "scene \<Rightarrow> string \<Rightarrow> bool \<times> scene" where
  "mel_eval w cmd =
     (let w1 = w\<lparr>calls := calls w @
                   [if cmd = ''performSplitMeshWithProjectedCurve 0''
                    then SplitMeshWithProjectedCurve (selection w)
                           (option_vars w ''splitPolyWithCurveOperation'')
                    else MelEval cmd]\<rparr>
      in if mel_raises w cmd then (False, w1) else (True, mel_effect w1 cmd))"

section \<open>The session object\<close>

text \<open>
  The fields of \<^verbatim>\<open>DDFreeSplitTool\<close>. \<^verbatim>\<open>original_camera_state\<close> is the empty
  dictionary (\<open>None\<close>) until the camera is set up and holds four entries afterwards.
  \<^verbatim>\<open>python_version\<close> and \<^verbatim>\<open>maya_version\<close> are never read and are left out.
\<close>

record camera_state =
  camera :: name
  camera_shape :: name
  orthographic :: real
  orthographicWidth :: real

record session =
  target_geo :: "name option"
  duplicated_geo :: "name option"
  temp_plane :: "name option"
  projection_curve :: "name option"
  projection_curves :: "name list"
  pfx_stroke :: "name option"
  original_camera_state :: "camera_state option"
  gui_window :: "name option"

definition tool_name :: string where
  "tool_name = ''ddPFXSplit''"

definition init :: session where
  "init = \<lparr>target_geo = None, duplicated_geo = None, temp_plane = None,
           projection_curve = None, projection_curves = [], pfx_stroke = None,
           original_camera_state = None, gui_window = None\<rparr>"

text \<open>Python's truth value of a field that holds \<^verbatim>\<open>None\<close> or a string.\<close>

definition truthy :: "name option \<Rightarrow> bool" where
  "truthy x = (case x of None \<Rightarrow> False | Some n \<Rightarrow> n \<noteq> [])"

text \<open>
  A handler either returns or lets an exception escape to the host; in both cases the
  session object and the scene are as the handler left them.
\<close>

datatype outcome = Returned session scene | Raised session scene

section \<open>The handlers\<close>

subsection \<open>\<^verbatim>\<open>create_ui\<close>\<close>

text \<open>Of the window, the controls that the handlers query or edit are modelled, with
  the values they are created with.\<close>

definition window_name :: name where
  "window_name = tool_name @ ''_window''"

definition cmds_control :: "name \<Rightarrow> scene \<Rightarrow> name \<times> control \<Rightarrow> scene" where
  "cmds_control win w c = w\<lparr>controls := (controls w)(fst c \<mapsto> (win, snd c))\<rparr>"

definition create_ui :: "session \<Rightarrow> scene \<Rightarrow> outcome" where
  "create_ui s w =
     (case (if window_exists w window_name then cmds_deleteUI w window_name else Some w) of
        None \<Rightarrow> Raised s w
      | Some w1 \<Rightarrow>
          Returned (s\<lparr>gui_window := Some window_name\<rparr>)
            (foldl (cmds_control window_name) (w1\<lparr>windows := windows w1 @ [window_name]\<rparr>)
               [(''status_text'', TextLabel ''Status: No geometry selected''),
                (''curveSamples'', IntField 50),
                (''projTolerance'', FloatField 0.001),
                (''pointsOnEdges'', CheckBox False),
                (''automatic'', CheckBox True),
                (''keepHistory'', CheckBox False),
                (''detachEdges'', CheckBox True)]))"

subsection \<open>\<^verbatim>\<open>setup_geometry\<close>\<close>

definition setup_geometry :: "session \<Rightarrow> scene \<Rightarrow> outcome" where
  "setup_geometry s w =
     (case ls_selection_transforms w of
        [] \<Rightarrow> Returned s (cmds_warning w ''Please select a geometry object first!'')
      | target # _ \<Rightarrow>
          (let s1 = s\<lparr>target_geo := Some target\<rparr> in
           case cmds_duplicate w target (target @ ''_split'') of
             None \<Rightarrow> Raised s1 w
           | Some (dup, w1) \<Rightarrow>
               (let s2 = s1\<lparr>duplicated_geo := Some dup\<rparr> in
                case cmds_hide w1 target of
                  None \<Rightarrow> Raised s2 w1
                | Some w2 \<Rightarrow>
                    Returned s2
                      (case text_edit_label w2 ''status_text''
                              (''Status: '' @ target @ '' ready for splitting'') of
                         None \<Rightarrow> w2
                       | Some w3 \<Rightarrow> w3))))"

subsection \<open>\<^verbatim>\<open>activate_paint_tool\<close> and its three steps\<close>

text \<open>The panel whose camera is used: the panel with focus when it is a model panel,
  else the first visible model panel, else \<^verbatim>\<open>None\<close>.\<close>

definition current_model_panel :: "scene \<Rightarrow> name option" where
  "current_model_panel w =
     (case focus_panel w of
        None \<Rightarrow> (case filter (\<lambda>p. panel_type w p = ''modelPanel'') (visible_panels w) of
                   [] \<Rightarrow> None | p # _ \<Rightarrow> Some p)
      | Some current_panel \<Rightarrow>
          if current_panel = [] \<or> panel_type w current_panel \<noteq> ''modelPanel''
          then (case filter (\<lambda>p. panel_type w p = ''modelPanel'') (visible_panels w) of
                  [] \<Rightarrow> None | p # _ \<Rightarrow> Some p)
          else Some current_panel)"

text \<open>
  None of the host calls of \<^verbatim>\<open>setup_orthographic_camera\<close> is inside a \<^verbatim>\<open>try\<close>: without
  a model panel (\<^verbatim>\<open>cmds.modelPanel(None, ...)\<close>), with a camera that has no shape
  (\<^verbatim>\<open>None[0]\<close>), with a missing attribute or a missing target geometry the exception
  escapes. The snapshot is stored once both attributes have been read.
\<close>

definition setup_orthographic_camera :: "session \<Rightarrow> scene \<Rightarrow> outcome" where
  "setup_orthographic_camera s w =
     (case current_model_panel w of
        None \<Rightarrow> Raised s w
      | Some current_panel \<Rightarrow>
     (case panel_camera w current_panel of
        None \<Rightarrow> Raised s w
      | Some cam \<Rightarrow>
     (case listRelatives_shapes w cam of
        [] \<Rightarrow> Raised s w
      | cam_shape # _ \<Rightarrow>
     (case cmds_getAttr w cam_shape ''orthographic'' of
        None \<Rightarrow> Raised s w
      | Some ortho \<Rightarrow>
     (case cmds_getAttr w cam_shape ''orthographicWidth'' of
        None \<Rightarrow> Raised s w
      | Some ortho_width \<Rightarrow>
     (let s1 = s\<lparr>original_camera_state :=
                  Some \<lparr>camera = cam, camera_shape = cam_shape,
                        orthographic = ortho, orthographicWidth = ortho_width\<rparr>\<rparr> in
      case target_geo s1 of
        None \<Rightarrow> Raised s1 w
      | Some target \<Rightarrow>
     (case cmds_exactWorldBoundingBox w target of
        None \<Rightarrow> Raised s1 w
      | Some (b0, b1, b2, b3, b4, b5) \<Rightarrow>
     (let width = max (max (b3 - b0) (b4 - b1)) (b5 - b2) * 1.5 in
      case cmds_setAttr w cam_shape ''orthographic'' 1 of
        None \<Rightarrow> Raised s1 w
      | Some w1 \<Rightarrow>
     (case cmds_setAttr w1 cam_shape ''orthographicWidth'' width of
        None \<Rightarrow> Raised s1 w1
      | Some w2 \<Rightarrow>
          Returned s1
            (cmds_tumbleCtx_autoOrthoConstrain (cmds_tumbleCtx_orthoLock w2 False) False))))))))))"

text \<open>The nine \<^verbatim>\<open>setAttr\<close> calls on the plane, in order; all are on the same node,
  so either the first one raises or none does.\<close>

fun set_attrs :: "scene \<Rightarrow> name \<Rightarrow> (string \<times> real) list \<Rightarrow> scene option" where
  "set_attrs w n [] = Some w"
| "set_attrs w n ((a, v) # rest) =
     (case cmds_setAttr w n a v of None \<Rightarrow> None | Some w1 \<Rightarrow> set_attrs w1 n rest)"

definition create_temporary_plane :: "session \<Rightarrow> scene \<Rightarrow> outcome" where
  "create_temporary_plane s w =
     (case original_camera_state s of
        None \<Rightarrow> Raised s w
      | Some st \<Rightarrow>
     (case cmds_getAttr w (camera_shape st) ''orthographicWidth'' of
        None \<Rightarrow> Raised s w
      | Some ortho_width \<Rightarrow>
     (case cmds_polyPlane w ortho_width ortho_width ''ddSplit_tempPlane'' of
        ((plane, plane_creation_node), w1) \<Rightarrow>
     (let s1 = s\<lparr>temp_plane := Some plane\<rparr> in
      case cmds_connectAttr w1 (camera_shape st, ''orthographicWidth'')
             (plane_creation_node, ''width'') of
        None \<Rightarrow> Raised s1 w1
      | Some w2 \<Rightarrow>
     (case cmds_connectAttr w2 (camera_shape st, ''orthographicWidth'')
             (plane_creation_node, ''height'') of
        None \<Rightarrow> Raised s1 w2
      | Some w3 \<Rightarrow>
     (case cmds_parent w3 plane (camera st) of
        None \<Rightarrow> Raised s1 w3
      | Some w4 \<Rightarrow>
     (case set_attrs w4 plane
             [(''translateX'', 0), (''translateY'', 0), (''translateZ'', - 100),
              (''rotateX'', 90), (''rotateY'', 0), (''rotateZ'', 0),
              (''overrideEnabled'', 1), (''overrideDisplayType'', 2), (''visibility'', 0)] of
        None \<Rightarrow> Raised s1 w4
      | Some w5 \<Rightarrow> Returned s1 w5)))))))"

definition preset_2026 :: string where
  \<open>preset_2026 =
     ''source "C:/Program Files/Autodesk/Maya2026/Examples/Paint_Effects/Airbrush/defaultPaint.mel"''\<close>

definition preset_2022 :: string where
  \<open>preset_2022 =
     ''source "C:/Program Files/Autodesk/Maya2022/Examples/Paint_Effects/Airbrush/defaultPaint.mel"''\<close>

definition preset_generic :: string where
  \<open>preset_generic =
     ''source `getenv("MAYA_LOCATION")` + "/Examples/Paint_Effects/Airbrush/defaultPaint.mel"''\<close>

definition load_default_paint :: "scene \<Rightarrow> scene" where
  "load_default_paint w =
     (case mel_eval w preset_2026 of
        (True, w1) \<Rightarrow> w1
      | (False, w1) \<Rightarrow>
          (case mel_eval w1 preset_2022 of
             (True, w2) \<Rightarrow> w2
           | (False, w2) \<Rightarrow> snd (mel_eval w2 preset_generic)))"

definition activate_paint_effects :: "session \<Rightarrow> scene \<Rightarrow> outcome" where
  "activate_paint_effects s w =
     (let w1 = load_default_paint w;
          w2 = (case cmds_dynWireCtx_dam w1 False of None \<Rightarrow> w1 | Some w' \<Rightarrow> w')
      in case temp_plane s of
           None \<Rightarrow> Returned s w2
         | Some plane \<Rightarrow>
             if plane = [] then Returned s w2
             else (case cmds_select w2 [plane] of
                     None \<Rightarrow> Raised s w2
                   | Some w3 \<Rightarrow> Returned s (snd (mel_eval w3 ''MakePaintable''))))"

definition activate_paint_tool :: "session \<Rightarrow> scene \<Rightarrow> outcome" where
  "activate_paint_tool s w =
     (if \<not> truthy (target_geo s)
      then Returned s (cmds_warning w ''Please setup geometry first!'')
      else (case setup_orthographic_camera s w of
              Raised s1 w1 \<Rightarrow> Raised s1 w1
            | Returned s1 w1 \<Rightarrow>
                (case create_temporary_plane s1 w1 of
                   Raised s2 w2 \<Rightarrow> Raised s2 w2
                 | Returned s2 w2 \<Rightarrow> activate_paint_effects s2 w2)))"

subsection \<open>\<^verbatim>\<open>convert_and_project\<close>\<close>

text \<open>
  The first loop, \<^verbatim>\<open>for i, stroke_shape in enumerate(strokes)\<close>: an invalid stroke is
  skipped with a warning, a valid one gets a circle named after its position, which is
  appended to \<^verbatim>\<open>self.projection_curves\<close> and wired to the stroke. The transform of the
  stroke is looked up into a local variable that is not used.
\<close>

fun convert_strokes :: "nat \<Rightarrow> name list \<Rightarrow> session \<Rightarrow> scene \<Rightarrow> outcome" where
  "convert_strokes i [] s w = Returned s w"
| "convert_strokes i (stroke_shape # rest) s w =
     (if stroke_shape = [] \<or> \<not> objExists w stroke_shape
      then convert_strokes (Suc i) rest s
             (cmds_warning w (''Paint Effects stroke '' @ str_nat (i + 1) @ '' is invalid - skipping!''))
      else (case cmds_circle w (''projCurve_'' @ format_02d (i + 1)) of
              (curve, w1) \<Rightarrow>
                (case listRelatives_shapes w1 curve of
                   [] \<Rightarrow> Raised s w1
                 | circle_shape # _ \<Rightarrow>
                     (let s1 = s\<lparr>projection_curves := projection_curves s @ [curve]\<rparr> in
                      case cmds_connectAttr w1 (stroke_shape, ''outMainCurves[0]'')
                             (circle_shape, ''create'') of
                        None \<Rightarrow> Raised s1 w1
                      | Some w2 \<Rightarrow> convert_strokes (Suc i) rest s1 w2))))"

text \<open>
  The projection settings: the defaults, overwritten one after the other by the four
  control queries inside one \<^verbatim>\<open>try\<close>; the first query that raises leaves the
  remaining settings at their defaults. The result is (curveSamples, tolerance,
  pointsOnEdges, automatic).
\<close>

definition projection_settings :: "scene \<Rightarrow> int \<times> real \<times> bool \<times> bool" where
  "projection_settings w =
     (case intField_query w ''curveSamples'' of
        None \<Rightarrow> (50, 0.001, False, True)
      | Some curve_samples \<Rightarrow>
     (case floatField_query w ''projTolerance'' of
        None \<Rightarrow> (curve_samples, 0.001, False, True)
      | Some tolerance \<Rightarrow>
     (case checkBox_query w ''pointsOnEdges'' of
        None \<Rightarrow> (curve_samples, tolerance, False, True)
      | Some points_on_edges \<Rightarrow>
     (case checkBox_query w ''automatic'' of
        None \<Rightarrow> (curve_samples, tolerance, points_on_edges, True)
      | Some automatic \<Rightarrow> (curve_samples, tolerance, points_on_edges, automatic)))))"

text \<open>
  The second loop, inside the outer \<^verbatim>\<open>try\<close>: a projection call that raises ends the
  loop (\<open>False\<close>). The second component of each result is collected in a local list that
  is not read afterwards.
\<close>

fun project_curves ::
  "name list \<Rightarrow> name option \<Rightarrow> int \<times> real \<times> bool \<times> bool \<Rightarrow> name list \<Rightarrow> scene
     \<Rightarrow> bool \<times> name list \<times> scene" where
  "project_curves [] mesh ps projected_curve_groups w = (True, projected_curve_groups, w)"
| "project_curves (curve # rest) mesh ps projected_curve_groups w =
     (case ps of (curve_samples, tolerance, points_on_edges, automatic) \<Rightarrow>
        (case cmds_polyProjectCurve w curve mesh points_on_edges curve_samples automatic tolerance of
           (None, w1) \<Rightarrow> (False, projected_curve_groups, w1)
         | (Some result, w1) \<Rightarrow>
             project_curves rest mesh ps (projected_curve_groups @ [snd result]) w1))"

text \<open>The text of the caught exception, which the host chooses, is not part of the
  warning as modelled.\<close>

definition convert_and_project :: "session \<Rightarrow> scene \<Rightarrow> outcome" where
  "convert_and_project s w =
     (case ls_type w Stroke of
        [] \<Rightarrow> Returned s (cmds_warning w ''No Paint Effects stroke found!'')
      | stroke # others \<Rightarrow>
          (case convert_strokes 0 (stroke # others) (s\<lparr>projection_curves := []\<rparr>) w of
             Raised s1 w1 \<Rightarrow> Raised s1 w1
           | Returned s1 w1 \<Rightarrow>
               (case projection_curves s1 of
                  [] \<Rightarrow> Returned s1 (cmds_warning w1 ''No valid projection curves created!'')
                | first # _ \<Rightarrow>
                    (let s2 = s1\<lparr>projection_curve := Some first\<rparr> in
                     case project_curves (projection_curves s2) (duplicated_geo s2)
                            (projection_settings w1) [] w1 of
                       (True, _, w2) \<Rightarrow> Returned s2 w2
                     | (False, _, w2) \<Rightarrow> Returned s2 (cmds_warning w2 ''Projection failed: '')))))"

subsection \<open>\<^verbatim>\<open>execute_split\<close>\<close>

definition execute_split :: "session \<Rightarrow> scene \<Rightarrow> outcome" where
  "execute_split s w =
     (case ls_type w CurveVarGroup of
        [] \<Rightarrow> Returned s (cmds_warning w ''No projected curve found!'')
      | g # gs \<Rightarrow>
          (let curve_groups = g # gs;
               detach_edges = (case checkBox_query w ''detachEdges'' of
                                 None \<Rightarrow> True | Some b \<Rightarrow> b);
               operation_value = (if detach_edges then 2 else 1);
               w1 = cmds_optionVar w ''splitPolyWithCurveOperation'' operation_value
           in case cmds_select w1 curve_groups of
                None \<Rightarrow> Returned s (cmds_warning w1 ''Split failed: '')
              | Some w2 \<Rightarrow>
                  (case cmds_select_add w2 (duplicated_geo s) of
                     None \<Rightarrow> Returned s (cmds_warning w2 ''Split failed: '')
                   | Some w3 \<Rightarrow>
                       (case mel_eval w3 ''performSplitMeshWithProjectedCurve 0'' of
                          (True, w4) \<Rightarrow> Returned s w4
                        | (False, w4) \<Rightarrow> Returned s (cmds_warning w4 ''Split failed: '')))))"

subsection \<open>\<^verbatim>\<open>restore_camera_state\<close>, \<^verbatim>\<open>finish_and_cleanup\<close>, \<^verbatim>\<open>cancel_operation\<close>\<close>

definition restore_camera_state :: "session \<Rightarrow> scene \<Rightarrow> outcome" where
  "restore_camera_state s w =
     (case original_camera_state s of
        None \<Rightarrow> Returned s w
      | Some st \<Rightarrow>
          (case (if camera_shape st \<noteq> [] \<and> objExists w (camera_shape st)
                 then (case cmds_setAttr w (camera_shape st) ''orthographic'' (orthographic st) of
                         None \<Rightarrow> None
                       | Some w1 \<Rightarrow>
                           cmds_setAttr w1 (camera_shape st) ''orthographicWidth''
                             (orthographicWidth st))
                 else Some w) of
             None \<Rightarrow> Raised s w
           | Some w2 \<Rightarrow>
               Returned s
                 (cmds_tumbleCtx_autoOrthoConstrain (cmds_tumbleCtx_orthoLock w2 True) True)))"

text \<open>The guarded delete, \<^verbatim>\<open>if cmds.objExists(x): cmds.delete(x)\<close>, and the loop over
  a list of names that the cleanup runs five times.\<close>

definition delete_if_exists :: "scene \<Rightarrow> name \<Rightarrow> scene option" where
  "delete_if_exists w n = (if objExists w n then cmds_delete w n else Some w)"

fun delete_existing :: "name list \<Rightarrow> scene \<Rightarrow> scene option" where
  "delete_existing [] w = Some w"
| "delete_existing (n # ns) w =
     (case delete_if_exists w n of None \<Rightarrow> None | Some w1 \<Rightarrow> delete_existing ns w1)"

text \<open>The guard \<^verbatim>\<open>if self.x and cmds.objExists(self.x)\<close> on a field of the session.\<close>

definition present :: "scene \<Rightarrow> name option \<Rightarrow> bool" where
  "present w x = (case x of None \<Rightarrow> False | Some n \<Rightarrow> n \<noteq> [] \<and> objExists w n)"

definition close_gui :: "session \<Rightarrow> scene \<Rightarrow> scene option" where
  "close_gui s w =
     (case gui_window s of
        None \<Rightarrow> Some w
      | Some win \<Rightarrow> if win \<noteq> [] \<and> window_exists w win then cmds_deleteUI w win else Some w)"

text \<open>The names that the cleanup collects before it deletes anything.\<close>

definition split_groups_of :: "scene \<Rightarrow> name list" where
  "split_groups_of w = filter (ends_with ''_split'') (ls_transforms w)"

definition pfx_transforms_of :: "scene \<Rightarrow> name list" where
  "pfx_transforms_of w =
     concat (map (\<lambda>pfx_shape.
                    if objExists w pfx_shape
                    then (case listRelatives_parent w pfx_shape of None \<Rightarrow> [] | Some p \<Rightarrow> [p])
                    else [])
               (ls_type w Stroke))"

definition cleanup_curves :: "session \<Rightarrow> scene \<Rightarrow> name list" where
  "cleanup_curves s w =
     (if projection_curves s \<noteq> [] then filter (objExists w) (projection_curves s)
      else if present w (projection_curve s) then [the (projection_curve s)]
      else [])"

definition finish_and_cleanup :: "session \<Rightarrow> scene \<Rightarrow> outcome" where
  "finish_and_cleanup s w =
     (case restore_camera_state s w of
        Raised s1 w1 \<Rightarrow> Raised s1 w1
      | Returned s1 w1 \<Rightarrow>
     (let keep_projected_curves = (case checkBox_query w1 ''keepHistory'' of
                                     None \<Rightarrow> False | Some b \<Rightarrow> b);
          split_groups = split_groups_of w1;
          pfx_objects = ls_type w1 Stroke;
          pfx_transforms = pfx_transforms_of w1;
          curves = cleanup_curves s1 w1;
          projection_curve_groups = ls_type w1 CurveVarGroup
      in case (if present w1 (duplicated_geo s1)
               then cmds_delete_constructionHistory w1 (the (duplicated_geo s1))
               else Some w1) of
        None \<Rightarrow> Raised s1 w1
      | Some w2 \<Rightarrow>
     (case delete_existing split_groups w2 of
        None \<Rightarrow> Raised s1 w2
      | Some w3 \<Rightarrow>
     (case delete_existing pfx_objects w3 of
        None \<Rightarrow> Raised s1 w3
      | Some w4 \<Rightarrow>
     (case delete_existing pfx_transforms w4 of
        None \<Rightarrow> Raised s1 w4
      | Some w5 \<Rightarrow>
     (case delete_existing curves w5 of
        None \<Rightarrow> Raised s1 w5
      | Some w6 \<Rightarrow>
     (case (if keep_projected_curves then Some w6
            else delete_existing projection_curve_groups w6) of
        None \<Rightarrow> Raised s1 w6
      | Some w7 \<Rightarrow>
     (case (if present w7 (temp_plane s1) then cmds_delete w7 (the (temp_plane s1))
            else Some w7) of
        None \<Rightarrow> Raised s1 w7
      | Some w8 \<Rightarrow>
     (case close_gui s1 w8 of
        None \<Rightarrow> Raised s1 w8
      | Some w9 \<Rightarrow> Returned s1 w9)))))))))"

definition cancel_operation :: "session \<Rightarrow> scene \<Rightarrow> outcome" where
  "cancel_operation s w =
     (case restore_camera_state s w of
        Raised s1 w1 \<Rightarrow> Raised s1 w1
      | Returned s1 w1 \<Rightarrow>
     (case (if present w1 (duplicated_geo s1) then cmds_delete w1 (the (duplicated_geo s1))
            else Some w1) of
        None \<Rightarrow> Raised s1 w1
      | Some w2 \<Rightarrow>
     (case (if present w2 (temp_plane s1) then cmds_delete w2 (the (temp_plane s1))
            else Some w2) of
        None \<Rightarrow> Raised s1 w2
      | Some w3 \<Rightarrow>
     (case (if present w3 (target_geo s1) then cmds_showHidden w3 (the (target_geo s1))
            else Some w3) of
        None \<Rightarrow> Raised s1 w3
      | Some w4 \<Rightarrow>
     (case close_gui s1 w4 of
        None \<Rightarrow> Raised s1 w4
      | Some w5 \<Rightarrow> Returned s1 w5)))))"

subsection \<open>\<^verbatim>\<open>show_tool\<close>\<close>

definition show_tool :: "scene \<Rightarrow> outcome" where
  "show_tool w = create_ui init w"

section \<open>Observing outcomes\<close>

fun returned :: "outcome \<Rightarrow> bool" where
  "returned (Returned s w) = True"
| "returned (Raised s w) = False"

fun session_of :: "outcome \<Rightarrow> session" where
  "session_of (Returned s w) = s"
| "session_of (Raised s w) = s"

fun scene_of :: "outcome \<Rightarrow> scene" where
  "scene_of (Returned s w) = w"
| "scene_of (Raised s w) = w"

text \<open>The next handler the user triggers runs on the state the previous one left.\<close>

definition and_then :: "outcome \<Rightarrow> (session \<Rightarrow> scene \<Rightarrow> outcome) \<Rightarrow> outcome" where
  "and_then x handler = handler (session_of x) (scene_of x)"


fun is_split :: "call \<Rightarrow> bool" where
  "is_split (SplitMeshWithProjectedCurve _ _) = True"
| "is_split _ = False"

text \<open>
  \<open>deletion w ds w'\<close>: the scene \<open>w'\<close> comes from \<open>w\<close> by delete calls on the nodes \<open>ds\<close>,
  in this order, each on a node that existed when it was called and none on the same
  node twice; nothing was created, and attributes, owners, types, controls, windows and
  warnings are as before. A node without owner that was not a target is still there.
\<close>

definition deletion :: "scene \<Rightarrow> name list \<Rightarrow> scene \<Rightarrow> bool" where
  "deletion w ds w' =
     (calls w' = calls w @ map Delete ds \<and> distinct ds \<and> set ds \<subseteq> set (nodes w) \<and>
      set ds \<inter> set (nodes w') = {} \<and> set (nodes w') \<subseteq> set (nodes w) \<and>
      (\<forall>m \<in> set (nodes w). owner w m = None \<and> m \<notin> set ds \<longrightarrow> m \<in> set (nodes w')) \<and>
      set (history w') \<subseteq> set (history w) \<and>
      attrs w' = attrs w \<and> owner w' = owner w \<and> ntype w' = ntype w \<and>
      controls w' = controls w \<and> windows w' = windows w \<and> warnings w' = warnings w)"

text \<open>
  \<open>wired w x c\<close>: in the scene \<open>w\<close> the curve \<open>c\<close> has a shape whose \<^verbatim>\<open>create\<close>
  attribute is fed by the output curve of the stroke \<open>x\<close>.
\<close>

definition wired :: "scene \<Rightarrow> name \<Rightarrow> name \<Rightarrow> bool" where
  "wired w x c =
     (\<exists>sh \<in> set (nodes w). owner w sh = Some c \<and>
        ((x, ''outMainCurves[0]''), (sh, ''create'')) \<in> set (connections w))"

text \<open>The scene after the construction history of the duplicated geometry is deleted,
  and the value of the option to keep the projected curves, as the cleanup reads them.\<close>

definition history_step :: "session \<Rightarrow> scene \<Rightarrow> scene" where
  "history_step s w =
     (if present w (duplicated_geo s)
      then w\<lparr>history := filter (\<lambda>m. m \<noteq> the (duplicated_geo s)) (history w),
             calls := calls w @ [DeleteHistory (the (duplicated_geo s))]\<rparr>
      else w)"

definition keeps :: "scene \<Rightarrow> bool" where
  "keeps w = (checkBox_query w ''keepHistory'' = Some True)"


section \<open>Example scenes\<close>

text \<open>
  A scene with a perspective camera shown in a model panel and a cube that is selected;
  the cube spans 2 by 3 by 4 units. No preset file or command fails.
\<close>

definition studio :: scene where
  "studio =
     \<lparr>nodes = [''persp'', ''perspShape'', ''pCube1'', ''pCubeShape1''],
      ntype = (\<lambda>_. DependNode)(''persp'' := Transform, ''perspShape'' := Camera,
                ''pCube1'' := Transform, ''pCubeShape1'' := Mesh),
      owner = (\<lambda>_. None)(''perspShape'' \<mapsto> ''persp'', ''pCubeShape1'' \<mapsto> ''pCube1''),
      attrs = (\<lambda>_. None)((''perspShape'', ''orthographic'') \<mapsto> 0,
                (''perspShape'', ''orthographicWidth'') \<mapsto> 30,
                (''pCube1'', ''visibility'') \<mapsto> 1),
      bbox = (\<lambda>_. (0, 0, 0, 0, 0, 0))(''pCube1'' := (- 1, - 1, - 1, 1, 2, 3)),
      connections = [], history = [], selection = [''pCube1''], paintable = [],
      focus_panel = Some ''modelPanel4'', visible_panels = [''modelPanel4''],
      panel_type = (\<lambda>_. [])(''modelPanel4'' := ''modelPanel''),
      panel_camera = (\<lambda>_. None)(''modelPanel4'' \<mapsto> ''persp''),
      ortho_lock = True, auto_ortho_constrain = True, dyn_wire_dam = Some True,
      windows = [], controls = (\<lambda>_. None), option_vars = (\<lambda>_. None),
      mel_raises = (\<lambda>_. False), warnings = [], calls = []\<rparr>"

text \<open>What the host's paint tool adds to the scene when the artist draws a stroke: a
  transform and its stroke shape.\<close>

definition paint_stroke :: "name \<Rightarrow> scene \<Rightarrow> scene" where
  "paint_stroke nm w = add_node (add_node w nm Transform None) (nm @ ''Shape'') Stroke (Some nm)"

text \<open>A session from the launch of the tool to the conversion of one stroke, and its
  cancellation.\<close>

definition launched :: outcome where
  "launched = show_tool studio"

definition prepared :: outcome where
  "prepared = and_then launched setup_geometry"

definition activated :: outcome where
  "activated = and_then prepared activate_paint_tool"

definition painted :: outcome where
  "painted = Returned (session_of activated) (paint_stroke ''stroke1'' (scene_of activated))"

definition converted :: outcome where
  "converted = and_then painted convert_and_project"

definition cancelled :: outcome where
  "cancelled = and_then converted cancel_operation"

text \<open>
  A session that has set up the cube, and scenes it can meet: two strokes drawn while
  the duplicate has been deleted by hand (\<open>drawn\<close>) or is still there
  (\<open>drawn_on_duplicate\<close>); a curve-variation group without and with the duplicate;
  a scene with a curve-variation group that was there before any conversion and the
  option to keep the projected curves set.
\<close>

definition orphaned :: session where
  "orphaned = init\<lparr>target_geo := Some ''pCube1'', duplicated_geo := Some ''pCube1_split''\<rparr>"

definition drawn :: scene where
  "drawn = paint_stroke ''stroke2'' (paint_stroke ''stroke1'' studio)"

definition drawn_on_duplicate :: scene where
  "drawn_on_duplicate = paint_stroke ''stroke1'' (add_node studio ''pCube1_split'' Transform None)"

definition projected_only :: scene where
  "projected_only = add_node studio ''polyProjectionCurve1'' CurveVarGroup None"

definition projected :: scene where
  "projected = add_node projected_only ''pCube1_split'' Transform None"

definition two_selected :: scene where
  "two_selected = studio\<lparr>selection := [''pCube1'', ''persp'']\<rparr>"

definition nothing_selected :: scene where
  "nothing_selected = studio\<lparr>selection := []\<rparr>"

definition kept_scene :: scene where
  "kept_scene =
     (add_node drawn_on_duplicate ''oldCurves'' CurveVarGroup None)
       \<lparr>controls := (\<lambda>_. None)(''keepHistory'' \<mapsto> (window_name, CheckBox True))\<rparr>"

text \<open>
  The scene after the cube was deleted by hand; and a host on which every optional
  operation fails (no preset file can be sourced, the tool context does not exist,
  no command succeeds, the panel has no controls), with a session that has its
  temporary plane there.
\<close>

definition cleared :: scene where
  "cleared = studio\<lparr>nodes := [''persp'', ''perspShape''], selection := []\<rparr>"

definition easel :: scene where
  "easel =
     (add_node drawn_on_duplicate ''ddSplit_tempPlane'' Transform (Some ''persp''))
       \<lparr>mel_raises := (\<lambda>_. True), dyn_wire_dam := None\<rparr>"

definition painting :: session where
  "painting = orphaned\<lparr>temp_plane := Some ''ddSplit_tempPlane''\<rparr>"

section \<open>Facts about the host model\<close>

lemma fresh_from_unused:
  "card (set used \<inter> {nm @ replicate j (CHR ''1'') | j. True}) \<le> k \<Longrightarrow> fresh_from used nm k \<notin> set used"
proof (induction k arbitrary: nm)
  case 0
  then have "set used \<inter> {nm @ replicate j (CHR ''1'') | j. True} = {}" by simp
  moreover have "nm \<in> {nm @ replicate j (CHR ''1'') | j. True}"
    by (rule CollectI, rule exI [of _ 0]) simp
  ultimately show ?case by auto
next
  case (Suc k)
  show ?case
  proof (cases "nm \<in> set used")
    case False
    then show ?thesis by simp
  next
    case True
    let ?A = "{nm @ replicate j (CHR ''1'') | j. True}"
    let ?B = "{(nm @ ''1'') @ replicate j (CHR ''1'') | j. True}"
    have sub: "set used \<inter> ?B \<subseteq> (set used \<inter> ?A) - {nm}"
    proof
      fix x assume x: "x \<in> set used \<inter> ?B"
      then obtain j where j: "x = (nm @ ''1'') @ replicate j (CHR ''1'')" by auto
      then have "x = nm @ replicate (Suc j) (CHR ''1'')" by simp
      then have "x \<in> ?A" by blast
      moreover have "x \<noteq> nm" using j by simp
      ultimately show "x \<in> (set used \<inter> ?A) - {nm}" using x by blast
    qed
    have "nm \<in> set used \<inter> ?A"
      using True by (auto intro: exI [of _ 0])
    then have "card ((set used \<inter> ?A) - {nm}) < card (set used \<inter> ?A)"
      by (intro card_Diff1_less) auto
    moreover have "card (set used \<inter> ?B) \<le> card ((set used \<inter> ?A) - {nm})"
      by (rule card_mono) (use sub in auto)
    ultimately have "card (set used \<inter> ?B) \<le> k" using Suc.prems by linarith
    from Suc.IH [OF this] True show ?thesis by simp
  qed
qed

lemma unique_name_fresh: "unique_name used nm \<notin> set used"
proof -
  have "card (set used \<inter> {nm @ replicate j (CHR ''1'') | j. True}) \<le> card (set used)"
    by (rule card_mono) auto
  also have "\<dots> \<le> length used" by (rule card_length)
  finally show ?thesis unfolding unique_name_def by (rule fresh_from_unused)
qed

lemma under_self: "under k own n n"
  by (cases k) auto

lemma under_root: "own m = None \<Longrightarrow> under k own n m = (m = n)"
  by (cases k) auto

lemma removed_by_self: "removed_by w n n"
  by (simp add: removed_by_def under_self)

lemma removed_by_root: "owner w m = None \<Longrightarrow> removed_by w n m = (m = n)"
  by (simp add: removed_by_def under_root)

lemma deletion_refl: "deletion w [] w"
  by (simp add: deletion_def)

lemma deletion_trans:
  assumes "deletion w ds1 w1" and "deletion w1 ds2 w2"
  shows "deletion w (ds1 @ ds2) w2"
  using assms unfolding deletion_def
  apply (intro conjI)
              apply simp
             apply (simp; blast)
            apply (simp; blast)
           apply (simp; blast)
          apply blast
         apply (simp; blast)
        apply blast
       apply simp_all
  done

lemma cmds_delete_deletion:
  assumes "cmds_delete w n = Some w'"
  shows "deletion w [n] w'"
  using assms removed_by_self [of w n]
  by (auto simp: cmds_delete_def deletion_def objExists_def removed_by_root split: if_splits)

lemma delete_if_exists_deletion:
  "\<exists>ds w'. delete_if_exists w n = Some w' \<and> deletion w ds w' \<and> set ds \<subseteq> {n} \<and> n \<notin> set (nodes w')"
proof (cases "objExists w n")
  case True
  then obtain w' where d: "cmds_delete w n = Some w'" by (simp add: cmds_delete_def)
  from cmds_delete_deletion [OF d] have "deletion w [n] w'" .
  moreover from this have "n \<notin> set (nodes w')" by (auto simp: deletion_def)
  ultimately show ?thesis using True d by (auto simp: delete_if_exists_def)
next
  case False
  then show ?thesis
    using deletion_refl [of w] by (auto simp: delete_if_exists_def objExists_def intro!: exI [of _ "[]"])
qed

lemma deletion_gone: "deletion w ds w' \<Longrightarrow> n \<notin> set (nodes w) \<Longrightarrow> n \<notin> set (nodes w')"
  by (auto simp: deletion_def)

lemma delete_existing_deletion:
  "\<exists>ds w'. delete_existing ns w = Some w' \<and> deletion w ds w' \<and> set ds \<subseteq> set ns \<and>
            (\<forall>n \<in> set ns. n \<notin> set (nodes w'))"
proof (induction ns arbitrary: w)
  case Nil
  show ?case using deletion_refl [of w] by (auto intro!: exI [of _ "[]"])
next
  case (Cons n ns)
  from delete_if_exists_deletion [of w n] obtain ds1 w1 where
    1: "delete_if_exists w n = Some w1" "deletion w ds1 w1" "set ds1 \<subseteq> {n}" "n \<notin> set (nodes w1)"
    by blast
  from Cons.IH [of w1] obtain ds2 w2 where
    2: "delete_existing ns w1 = Some w2" "deletion w1 ds2 w2" "set ds2 \<subseteq> set ns"
       "\<forall>m \<in> set ns. m \<notin> set (nodes w2)"
    by blast
  have "deletion w (ds1 @ ds2) w2" using 1(2) 2(2) by (rule deletion_trans)
  moreover have "n \<notin> set (nodes w2)" using 2(2) 1(4) by (rule deletion_gone)
  ultimately show ?case using 1 2 by (auto intro!: exI [of _ "ds1 @ ds2"])
qed

section \<open>Cleanup\<close>

lemma restore_camera_state_returns:
  "\<exists>w1. restore_camera_state s w = Returned s w1 \<and> nodes w1 = nodes w \<and> owner w1 = owner w \<and>
     ntype w1 = ntype w \<and> controls w1 = controls w \<and> windows w1 = windows w \<and>
     warnings w1 = warnings w \<and> calls w1 = calls w \<and> history w1 = history w \<and>
     selection w1 = selection w \<and>
     (\<forall>n a. a \<noteq> ''orthographic'' \<and> a \<noteq> ''orthographicWidth'' \<longrightarrow> attrs w1 (n, a) = attrs w (n, a)) \<and>
     (\<forall>st. original_camera_state s = Some st \<and> camera_shape st \<noteq> [] \<and>
           camera_shape st \<in> set (nodes w) \<longrightarrow>
           attrs w1 (camera_shape st, ''orthographic'') = Some (orthographic st) \<and>
           attrs w1 (camera_shape st, ''orthographicWidth'') = Some (orthographicWidth st))"
  by (auto simp: restore_camera_state_def cmds_setAttr_def objExists_def
        cmds_tumbleCtx_orthoLock_def cmds_tumbleCtx_autoOrthoConstrain_def
      split: option.splits)

lemma close_gui_Some:
  "\<exists>w'. close_gui s w = Some w' \<and> nodes w' = nodes w \<and> attrs w' = attrs w \<and> calls w' = calls w \<and>
     history w' = history w \<and> owner w' = owner w \<and> ntype w' = ntype w \<and> warnings w' = warnings w \<and>
     selection w' = selection w"
  by (auto simp: close_gui_def cmds_deleteUI_def split: option.splits)

lemma guarded_delete_deletion:
  "\<exists>ds w'. (if present w x then cmds_delete w (the x) else Some w) = Some w' \<and> deletion w ds w' \<and>
     set ds \<subseteq> set_option x \<and> (\<forall>p. x = Some p \<and> p \<noteq> [] \<longrightarrow> p \<notin> set (nodes w'))"
proof (cases "present w x")
  case True
  then obtain p where p: "x = Some p" "p \<noteq> []" "objExists w p"
    by (auto simp: present_def split: option.splits)
  then obtain w' where d: "cmds_delete w p = Some w'" by (simp add: cmds_delete_def)
  from cmds_delete_deletion [OF d] have del: "deletion w [p] w'" .
  then have "p \<notin> set (nodes w')" by (auto simp: deletion_def)
  with True p d del show ?thesis by (auto intro!: exI [of _ "[p]"])
next
  case False
  then have "\<forall>p. x = Some p \<and> p \<noteq> [] \<longrightarrow> p \<notin> set (nodes w)"
    by (auto simp: present_def objExists_def)
  with False show ?thesis using deletion_refl [of w] by (auto intro!: exI [of _ "[]"])
qed

lemma finish_and_cleanup_steps:
  obtains w1 ds w8 w9 where
    "restore_camera_state s w = Returned s w1"
    "deletion (history_step s w1) ds w8"
    "set ds \<subseteq> set (split_groups_of w1) \<union> set (ls_type w1 Stroke) \<union> set (pfx_transforms_of w1) \<union>
        set (cleanup_curves s w1) \<union> (if keeps w1 then {} else set (ls_type w1 CurveVarGroup)) \<union>
        set_option (temp_plane s)"
    "\<forall>n \<in> set (split_groups_of w1) \<union> set (ls_type w1 Stroke) \<union> set (pfx_transforms_of w1) \<union>
        set (cleanup_curves s w1). n \<notin> set (nodes w8)"
    "\<not> keeps w1 \<longrightarrow> (\<forall>n \<in> set (ls_type w1 CurveVarGroup). n \<notin> set (nodes w8))"
    "\<forall>p. temp_plane s = Some p \<and> p \<noteq> [] \<longrightarrow> p \<notin> set (nodes w8)"
    "finish_and_cleanup s w = Returned s w9"
    "nodes w9 = nodes w8" "attrs w9 = attrs w8" "calls w9 = calls w8" "history w9 = history w8"
    "owner w9 = owner w8" "ntype w9 = ntype w8" "warnings w9 = warnings w8"
proof -
  from restore_camera_state_returns [of s w] obtain w1 where
    r: "restore_camera_state s w = Returned s w1" by blast
  define w2 where "w2 = history_step s w1"
  have h: "(if present w1 (duplicated_geo s)
            then cmds_delete_constructionHistory w1 (the (duplicated_geo s)) else Some w1) = Some w2"
    by (auto simp: w2_def history_step_def cmds_delete_constructionHistory_def present_def
          split: option.splits)
  from delete_existing_deletion [of "split_groups_of w1" w2] obtain d3 w3 where
    3: "delete_existing (split_groups_of w1) w2 = Some w3" "deletion w2 d3 w3"
       "set d3 \<subseteq> set (split_groups_of w1)" "\<forall>n \<in> set (split_groups_of w1). n \<notin> set (nodes w3)"
    by blast
  from delete_existing_deletion [of "ls_type w1 Stroke" w3] obtain d4 w4 where
    4: "delete_existing (ls_type w1 Stroke) w3 = Some w4" "deletion w3 d4 w4"
       "set d4 \<subseteq> set (ls_type w1 Stroke)" "\<forall>n \<in> set (ls_type w1 Stroke). n \<notin> set (nodes w4)"
    by blast
  from delete_existing_deletion [of "pfx_transforms_of w1" w4] obtain d5 w5 where
    5: "delete_existing (pfx_transforms_of w1) w4 = Some w5" "deletion w4 d5 w5"
       "set d5 \<subseteq> set (pfx_transforms_of w1)" "\<forall>n \<in> set (pfx_transforms_of w1). n \<notin> set (nodes w5)"
    by blast
  from delete_existing_deletion [of "cleanup_curves s w1" w5] obtain d6 w6 where
    6: "delete_existing (cleanup_curves s w1) w5 = Some w6" "deletion w5 d6 w6"
       "set d6 \<subseteq> set (cleanup_curves s w1)" "\<forall>n \<in> set (cleanup_curves s w1). n \<notin> set (nodes w6)"
    by blast
  have "\<exists>d7 w7. (if keeps w1 then Some w6 else delete_existing (ls_type w1 CurveVarGroup) w6) = Some w7 \<and>
          deletion w6 d7 w7 \<and> set d7 \<subseteq> (if keeps w1 then {} else set (ls_type w1 CurveVarGroup)) \<and>
          (\<not> keeps w1 \<longrightarrow> (\<forall>n \<in> set (ls_type w1 CurveVarGroup). n \<notin> set (nodes w7)))"
  proof (cases "keeps w1")
    case True
    then show ?thesis using deletion_refl [of w6] by (auto intro!: exI [of _ "[]"])
  next
    case False
    then show ?thesis using delete_existing_deletion [of "ls_type w1 CurveVarGroup" w6] by auto
  qed
  then obtain d7 w7 where
    7: "(if keeps w1 then Some w6 else delete_existing (ls_type w1 CurveVarGroup) w6) = Some w7"
       "deletion w6 d7 w7" "set d7 \<subseteq> (if keeps w1 then {} else set (ls_type w1 CurveVarGroup))"
       "\<not> keeps w1 \<longrightarrow> (\<forall>n \<in> set (ls_type w1 CurveVarGroup). n \<notin> set (nodes w7))"
    by blast
  from guarded_delete_deletion [of w7 "temp_plane s"] obtain d8 w8 where
    8: "(if present w7 (temp_plane s) then cmds_delete w7 (the (temp_plane s)) else Some w7) = Some w8"
       "deletion w7 d8 w8" "set d8 \<subseteq> set_option (temp_plane s)"
       "\<forall>p. temp_plane s = Some p \<and> p \<noteq> [] \<longrightarrow> p \<notin> set (nodes w8)"
    by blast
  from close_gui_Some [of s w8] obtain w9 where
    9: "close_gui s w8 = Some w9" "nodes w9 = nodes w8" "attrs w9 = attrs w8" "calls w9 = calls w8"
       "history w9 = history w8" "owner w9 = owner w8" "ntype w9 = ntype w8" "warnings w9 = warnings w8"
    by blast
  have k: "(case checkBox_query w1 ''keepHistory'' of None \<Rightarrow> False | Some b \<Rightarrow> b) = keeps w1"
    by (auto simp: keeps_def split: option.splits)
  have fin: "finish_and_cleanup s w = Returned s w9"
    unfolding finish_and_cleanup_def Let_def
    by (simp add: r k h 3(1) 4(1) 5(1) 6(1) 7(1) 8(1) 9(1))
  have del: "deletion w2 (d3 @ d4 @ d5 @ d6 @ d7 @ d8) w8"
    by (intro deletion_trans [OF 3(2)] deletion_trans [OF 4(2)] deletion_trans [OF 5(2)]
          deletion_trans [OF 6(2)] deletion_trans [OF 7(2)] 8(2))
  have sub: "set (nodes w8) \<subseteq> set (nodes w7)" "set (nodes w7) \<subseteq> set (nodes w6)"
    "set (nodes w6) \<subseteq> set (nodes w5)" "set (nodes w5) \<subseteq> set (nodes w4)"
    "set (nodes w4) \<subseteq> set (nodes w3)"
    using 4(2) 5(2) 6(2) 7(2) 8(2) by (auto simp: deletion_def)
  show thesis
  proof (rule that [of w1 "d3 @ d4 @ d5 @ d6 @ d7 @ d8" w8 w9])
    show "restore_camera_state s w = Returned s w1" by (rule r)
    show "deletion (history_step s w1) (d3 @ d4 @ d5 @ d6 @ d7 @ d8) w8"
      using del by (simp add: w2_def)
    show "set (d3 @ d4 @ d5 @ d6 @ d7 @ d8) \<subseteq> set (split_groups_of w1) \<union> set (ls_type w1 Stroke) \<union>
        set (pfx_transforms_of w1) \<union> set (cleanup_curves s w1) \<union>
        (if keeps w1 then {} else set (ls_type w1 CurveVarGroup)) \<union> set_option (temp_plane s)"
      using 3(3) 4(3) 5(3) 6(3) 7(3) 8(3) by auto
    show "\<forall>n \<in> set (split_groups_of w1) \<union> set (ls_type w1 Stroke) \<union> set (pfx_transforms_of w1) \<union>
        set (cleanup_curves s w1). n \<notin> set (nodes w8)"
      using 3(4) 4(4) 5(4) 6(4) sub by blast
    show "\<not> keeps w1 \<longrightarrow> (\<forall>n \<in> set (ls_type w1 CurveVarGroup). n \<notin> set (nodes w8))"
      using 7(4) sub by blast
    show "\<forall>p. temp_plane s = Some p \<and> p \<noteq> [] \<longrightarrow> p \<notin> set (nodes w8)" by (rule 8(4))
    show "finish_and_cleanup s w = Returned s w9" by (rule fin)
  qed (use 9 in simp_all)
qed

lemma restore_obs:
  assumes "restore_camera_state s w = Returned s w1"
  shows "nodes w1 = nodes w" "owner w1 = owner w" "ntype w1 = ntype w" "controls w1 = controls w"
    "history w1 = history w" "calls w1 = calls w" "warnings w1 = warnings w"
  using assms
  by (auto simp: restore_camera_state_def cmds_setAttr_def objExists_def
        cmds_tumbleCtx_orthoLock_def cmds_tumbleCtx_autoOrthoConstrain_def
      split: option.splits if_splits)

lemma restored_queries:
  assumes "restore_camera_state s w = Returned s w1"
  shows "split_groups_of w1 = split_groups_of w" "ls_type w1 t = ls_type w t"
    "pfx_transforms_of w1 = pfx_transforms_of w" "cleanup_curves s w1 = cleanup_curves s w"
    "keeps w1 = keeps w" "present w1 x = present w x"
  unfolding split_groups_of_def ls_transforms_def ls_type_def pfx_transforms_of_def
        cleanup_curves_def keeps_def present_def objExists_def listRelatives_parent_def
        checkBox_query_def restore_obs [OF assms]
  by (rule refl)+

lemma history_step_obs:
  "nodes (history_step s w) = nodes w" "attrs (history_step s w) = attrs w"
  "owner (history_step s w) = owner w" "ntype (history_step s w) = ntype w"
  "warnings (history_step s w) = warnings w"
  "set (history (history_step s w)) \<subseteq> set (history w)"
  "present w (duplicated_geo s) \<Longrightarrow> the (duplicated_geo s) \<notin> set (history (history_step s w))"
  by (auto simp: history_step_def)

text \<open>
  Claim C7. \<^verbatim>\<open>finish_and_cleanup\<close> always returns. Whatever the options are, when a
  camera snapshot was taken and the camera shape exists, the orthographic flag and width
  of the camera shape are afterwards the values of the snapshot. The visibility of no
  node is changed: in particular the hidden original geometry is not shown again.
\<close>

theorem finish_restores_camera_keeps_visibility:
  "returned (finish_and_cleanup s w) \<and>
   (\<forall>st. original_camera_state s = Some st \<and> camera_shape st \<noteq> [] \<and> camera_shape st \<in> set (nodes w) \<longrightarrow>
      attrs (scene_of (finish_and_cleanup s w)) (camera_shape st, ''orthographic'') = Some (orthographic st) \<and>
      attrs (scene_of (finish_and_cleanup s w)) (camera_shape st, ''orthographicWidth'') =
        Some (orthographicWidth st)) \<and>
   (\<forall>n. attrs (scene_of (finish_and_cleanup s w)) (n, ''visibility'') = attrs w (n, ''visibility''))"
proof -
  obtain w1 ds w8 w9 where
    r: "restore_camera_state s w = Returned s w1" and
    d: "deletion (history_step s w1) ds w8" and
    f: "finish_and_cleanup s w = Returned s w9" and
    a: "attrs w9 = attrs w8"
    by (rule finish_and_cleanup_steps [of s w])
  have "attrs w9 = attrs w1" using a d by (simp add: deletion_def history_step_obs)
  then show ?thesis using restore_camera_state_returns [of s w] r f by auto
qed


text \<open>
  Claim C3, amended. \<^verbatim>\<open>finish_and_cleanup\<close> always returns, and afterwards the
  temporary plane, every stroke and every parent of a stroke, and the reference curves
  that the session holds are gone, and the duplicated geometry has no construction
  history. When the option to keep the projected curves is not set, no curve-variation
  group is left. When it is set, no group is deleted for being a group: every group
  without parent that no other rule of the cleanup matches (a name that ends with
  \<^verbatim>\<open>_split\<close>, the parent of a stroke, a reference curve or the temporary plane of the
  session) is still there, whether the conversion produced it or not.
\<close>

theorem finish_removes_session_nodes:
  "returned (finish_and_cleanup s w) \<and>
   (\<forall>p. temp_plane s = Some p \<and> p \<noteq> [] \<longrightarrow> p \<notin> set (nodes (scene_of (finish_and_cleanup s w)))) \<and>
   (\<forall>n. ntype w n = Stroke \<longrightarrow> n \<notin> set (nodes (scene_of (finish_and_cleanup s w)))) \<and>
   (\<forall>n. (\<exists>st \<in> set (nodes w). ntype w st = Stroke \<and> owner w st = Some n) \<longrightarrow>
        n \<notin> set (nodes (scene_of (finish_and_cleanup s w)))) \<and>
   (\<forall>c \<in> set (projection_curves s). c \<notin> set (nodes (scene_of (finish_and_cleanup s w)))) \<and>
   (\<forall>d. duplicated_geo s = Some d \<and> d \<noteq> [] \<and> d \<in> set (nodes w) \<longrightarrow>
        d \<notin> set (history (scene_of (finish_and_cleanup s w)))) \<and>
   (checkBox_query w ''keepHistory'' \<noteq> Some True \<longrightarrow>
      (\<forall>g. ntype w g = CurveVarGroup \<longrightarrow> g \<notin> set (nodes (scene_of (finish_and_cleanup s w))))) \<and>
   (checkBox_query w ''keepHistory'' = Some True \<longrightarrow>
      (\<forall>g \<in> set (nodes w). ntype w g = CurveVarGroup \<and> owner w g = None \<and> \<not> ends_with ''_split'' g \<and>
          g \<notin> set (pfx_transforms_of w) \<and> g \<notin> set (cleanup_curves s w) \<and> temp_plane s \<noteq> Some g \<longrightarrow>
          g \<in> set (nodes (scene_of (finish_and_cleanup s w)))))"
proof -
  obtain w1 ds w8 w9 where
    r: "restore_camera_state s w = Returned s w1" and
    d: "deletion (history_step s w1) ds w8" and
    t: "set ds \<subseteq> set (split_groups_of w1) \<union> set (ls_type w1 Stroke) \<union> set (pfx_transforms_of w1) \<union>
        set (cleanup_curves s w1) \<union> (if keeps w1 then {} else set (ls_type w1 CurveVarGroup)) \<union>
        set_option (temp_plane s)" and
    g: "\<forall>n \<in> set (split_groups_of w1) \<union> set (ls_type w1 Stroke) \<union> set (pfx_transforms_of w1) \<union>
        set (cleanup_curves s w1). n \<notin> set (nodes w8)" and
    k: "\<not> keeps w1 \<longrightarrow> (\<forall>n \<in> set (ls_type w1 CurveVarGroup). n \<notin> set (nodes w8))" and
    p: "\<forall>p. temp_plane s = Some p \<and> p \<noteq> [] \<longrightarrow> p \<notin> set (nodes w8)" and
    f: "finish_and_cleanup s w = Returned s w9" and
    n: "nodes w9 = nodes w8" and h: "history w9 = history w8"
    by (rule finish_and_cleanup_steps [of s w])
  note q = restored_queries [OF r] and o = restore_obs [OF r]
  have sub8: "set (nodes w8) \<subseteq> set (nodes w)"
    using d by (simp add: deletion_def history_step_obs o)
  have gone: "\<And>x. x \<notin> set (nodes w) \<Longrightarrow> x \<notin> set (nodes w8)" using sub8 by blast
  have 1: "returned (finish_and_cleanup s w)" by (simp add: f)
  have 2: "\<forall>p. temp_plane s = Some p \<and> p \<noteq> [] \<longrightarrow> p \<notin> set (nodes (scene_of (finish_and_cleanup s w)))"
    using p by (simp add: f n)
  have 3: "\<forall>x. ntype w x = Stroke \<longrightarrow> x \<notin> set (nodes (scene_of (finish_and_cleanup s w)))"
  proof (intro allI impI)
    fix x assume "ntype w x = Stroke"
    then have "x \<in> set (ls_type w Stroke) \<or> x \<notin> set (nodes w)" by (simp add: ls_type_def)
    then show "x \<notin> set (nodes (scene_of (finish_and_cleanup s w)))"
      using g gone by (auto simp: f n q)
  qed
  have 4: "\<forall>x. (\<exists>st \<in> set (nodes w). ntype w st = Stroke \<and> owner w st = Some x) \<longrightarrow>
        x \<notin> set (nodes (scene_of (finish_and_cleanup s w)))"
  proof (intro allI impI)
    fix x assume "\<exists>st \<in> set (nodes w). ntype w st = Stroke \<and> owner w st = Some x"
    then have "x \<in> set (pfx_transforms_of w)"
      by (auto simp: pfx_transforms_of_def ls_type_def objExists_def listRelatives_parent_def)
    then show "x \<notin> set (nodes (scene_of (finish_and_cleanup s w)))"
      using g by (auto simp: f n q)
  qed
  have 5: "\<forall>c \<in> set (projection_curves s). c \<notin> set (nodes (scene_of (finish_and_cleanup s w)))"
  proof
    fix c assume "c \<in> set (projection_curves s)"
    then have "c \<in> set (cleanup_curves s w) \<or> c \<notin> set (nodes w)"
      by (auto simp: cleanup_curves_def objExists_def)
    then show "c \<notin> set (nodes (scene_of (finish_and_cleanup s w)))"
      using g gone by (auto simp: f n q)
  qed
  have 6: "\<forall>x. duplicated_geo s = Some x \<and> x \<noteq> [] \<and> x \<in> set (nodes w) \<longrightarrow>
        x \<notin> set (history (scene_of (finish_and_cleanup s w)))"
  proof (intro allI impI)
    fix x assume x: "duplicated_geo s = Some x \<and> x \<noteq> [] \<and> x \<in> set (nodes w)"
    then have "present w1 (duplicated_geo s)" by (simp add: present_def objExists_def o)
    then have "the (duplicated_geo s) \<notin> set (history (history_step s w1))" by (rule history_step_obs)
    moreover have "set (history w8) \<subseteq> set (history (history_step s w1))"
      using d by (simp add: deletion_def)
    ultimately show "x \<notin> set (history (scene_of (finish_and_cleanup s w)))"
      using x by (auto simp: f h)
  qed
  have 7: "checkBox_query w ''keepHistory'' \<noteq> Some True \<longrightarrow>
      (\<forall>x. ntype w x = CurveVarGroup \<longrightarrow> x \<notin> set (nodes (scene_of (finish_and_cleanup s w))))"
  proof (intro allI impI)
    fix x assume nk: "checkBox_query w ''keepHistory'' \<noteq> Some True" and "ntype w x = CurveVarGroup"
    then have "x \<in> set (ls_type w CurveVarGroup) \<or> x \<notin> set (nodes w)" by (simp add: ls_type_def)
    moreover have "\<not> keeps w1" using nk q(5) by (simp add: keeps_def)
    ultimately show "x \<notin> set (nodes (scene_of (finish_and_cleanup s w)))"
      using k gone by (auto simp: f n q)
  qed
  have 8: "checkBox_query w ''keepHistory'' = Some True \<longrightarrow>
      (\<forall>x \<in> set (nodes w). ntype w x = CurveVarGroup \<and> owner w x = None \<and> \<not> ends_with ''_split'' x \<and>
          x \<notin> set (pfx_transforms_of w) \<and> x \<notin> set (cleanup_curves s w) \<and> temp_plane s \<noteq> Some x \<longrightarrow>
          x \<in> set (nodes (scene_of (finish_and_cleanup s w))))"
  proof (intro impI ballI)
    fix x
    assume kp: "checkBox_query w ''keepHistory'' = Some True" and xin: "x \<in> set (nodes w)"
      and x: "ntype w x = CurveVarGroup \<and> owner w x = None \<and> \<not> ends_with ''_split'' x \<and>
          x \<notin> set (pfx_transforms_of w) \<and> x \<notin> set (cleanup_curves s w) \<and> temp_plane s \<noteq> Some x"
    have "keeps w1" using kp q(5) by (simp add: keeps_def)
    moreover have "x \<notin> set (split_groups_of w)" using x by (simp add: split_groups_of_def del: ends_with.simps)
    moreover have "x \<notin> set (ls_type w Stroke)" using x by (simp add: ls_type_def)
    moreover have "x \<notin> set_option (temp_plane s)" using x by (cases "temp_plane s") auto
    ultimately have "x \<notin> set ds" using t x by (auto simp: q)
    moreover have "x \<in> set (nodes (history_step s w1))" "owner (history_step s w1) x = None"
      using xin x by (simp_all add: history_step_obs o)
    ultimately have "x \<in> set (nodes w8)" using d unfolding deletion_def by blast
    then show "x \<in> set (nodes (scene_of (finish_and_cleanup s w)))" by (simp add: f n)
  qed
  from 1 2 3 4 5 6 7 8 show ?thesis by blast
qed

section \<open>Paint activation\<close>

lemma mel_eval_obs:
  "nodes (snd (mel_eval w c)) = nodes w" "attrs (snd (mel_eval w c)) = attrs w"
  "owner (snd (mel_eval w c)) = owner w" "ntype (snd (mel_eval w c)) = ntype w"
  "connections (snd (mel_eval w c)) = connections w"
  "controls (snd (mel_eval w c)) = controls w" "warnings (snd (mel_eval w c)) = warnings w"
  "selection (snd (mel_eval w c)) = selection w" "option_vars (snd (mel_eval w c)) = option_vars w"
  "mel_raises (snd (mel_eval w c)) = mel_raises w" "dyn_wire_dam (snd (mel_eval w c)) = dyn_wire_dam w"
  by (simp_all add: mel_eval_def mel_effect_def Let_def)

lemma load_default_paint_obs:
  "nodes (load_default_paint w) = nodes w" "attrs (load_default_paint w) = attrs w"
  "owner (load_default_paint w) = owner w" "ntype (load_default_paint w) = ntype w"
  "connections (load_default_paint w) = connections w"
  "controls (load_default_paint w) = controls w" "warnings (load_default_paint w) = warnings w"
proof -
  obtain b1 w1 where 1: "mel_eval w preset_2026 = (b1, w1)" by (cases "mel_eval w preset_2026")
  obtain b2 w2 where 2: "mel_eval w1 preset_2022 = (b2, w2)" by (cases "mel_eval w1 preset_2022")
  have e: "load_default_paint w = (if b1 then w1 else if b2 then w2 else snd (mel_eval w2 preset_generic))"
    by (simp add: load_default_paint_def 1 2)
  note a = mel_eval_obs [of w preset_2026, unfolded 1 snd_conv]
    and b = mel_eval_obs [of w1 preset_2022, unfolded 2 snd_conv]
  show "nodes (load_default_paint w) = nodes w" "attrs (load_default_paint w) = attrs w"
  "owner (load_default_paint w) = owner w" "ntype (load_default_paint w) = ntype w"
  "connections (load_default_paint w) = connections w"
  "controls (load_default_paint w) = controls w" "warnings (load_default_paint w) = warnings w"
    by (simp_all add: e a b mel_eval_obs)
qed




lemma add_node_obs:
  "nodes (add_node w n t p) = nodes w @ [n]" "owner (add_node w n t p) = (owner w)(n := p)"
  "ntype (add_node w n t p) = (ntype w)(n := t)"
  "attrs (add_node w n t p) = (attrs w)((n, ''visibility'') \<mapsto> 1)"
  "connections (add_node w n t p) = connections w" "warnings (add_node w n t p) = warnings w"
  "controls (add_node w n t p) = controls w" "calls (add_node w n t p) = calls w"
  "history (add_node w n t p) = history w" "selection (add_node w n t p) = selection w"
  by (simp_all add: add_node_def)





section \<open>Setup\<close>

lemma copy_node_obs:
  "nodes (copy_node w src dst p) = nodes w @ [dst]" "warnings (copy_node w src dst p) = warnings w"
  "controls (copy_node w src dst p) = controls w" "calls (copy_node w src dst p) = calls w"
  by (simp_all add: copy_node_def)

lemma foldl_copy_child_obs:
  "set (nodes w) \<subseteq> set (nodes (foldl (copy_child d) w cs)) \<and>
   warnings (foldl (copy_child d) w cs) = warnings w \<and>
   controls (foldl (copy_child d) w cs) = controls w \<and>
   calls (foldl (copy_child d) w cs) = calls w"
proof (induction cs arbitrary: w)
  case Nil
  show ?case by simp
next
  case (Cons c cs)
  from Cons.IH [of "copy_child d w c"] show ?case
    by (auto simp: copy_child_def copy_node_obs)
qed

lemma cmds_duplicate_obs:
  assumes "n \<in> set (nodes w)"
  shows "\<exists>d w1. cmds_duplicate w n nm = Some (d, w1) \<and> d \<notin> set (nodes w) \<and> d \<in> set (nodes w1) \<and>
     set (nodes w) \<subseteq> set (nodes w1) \<and> warnings w1 = warnings w \<and> controls w1 = controls w \<and>
     calls w1 = calls w"
proof -
  define d where "d = unique_name (nodes w) nm"
  define w0 where "w0 = copy_node w n d (owner w n)"
  define w1 where "w1 = foldl (copy_child d) w0 (filter (\<lambda>m. owner w m = Some n) (nodes w))"
  have e: "cmds_duplicate w n nm = Some (d, w1)"
    using assms by (simp add: cmds_duplicate_def objExists_def Let_def d_def w0_def w1_def)
  have f: "d \<notin> set (nodes w)" unfolding d_def by (rule unique_name_fresh)
  from foldl_copy_child_obs [of w0 d "filter (\<lambda>m. owner w m = Some n) (nodes w)"]
  have g: "set (nodes w0) \<subseteq> set (nodes w1)" "warnings w1 = warnings w0" "controls w1 = controls w0"
    "calls w1 = calls w0"
    by (simp_all add: w1_def)
  have h: "nodes w0 = nodes w @ [d]" "warnings w0 = warnings w" "controls w0 = controls w"
    "calls w0 = calls w"
    by (simp_all add: w0_def copy_node_obs)
  show ?thesis using e f g h by auto
qed

lemma setup_geometry_cases:
  "(ls_selection_transforms w = [] \<longrightarrow>
      setup_geometry s w =
        Returned s (w\<lparr>warnings := warnings w @ [''Please select a geometry object first!'']\<rparr>)) \<and>
   (\<forall>target rest. ls_selection_transforms w = target # rest \<longrightarrow>
      returned (setup_geometry s w) \<and>
      target_geo (session_of (setup_geometry s w)) = Some target \<and>
      (\<exists>d. duplicated_geo (session_of (setup_geometry s w)) = Some d \<and>
           d \<in> set (nodes (scene_of (setup_geometry s w))) \<and> d \<notin> set (nodes w)) \<and>
      attrs (scene_of (setup_geometry s w)) (target, ''visibility'') = Some 0 \<and>
      warnings (scene_of (setup_geometry s w)) = warnings w)"
proof (intro conjI impI allI)
  assume "ls_selection_transforms w = []"
  then show "setup_geometry s w =
        Returned s (w\<lparr>warnings := warnings w @ [''Please select a geometry object first!'']\<rparr>)"
    by (simp add: setup_geometry_def cmds_warning_def)
next
  fix target rest
  assume sel: "ls_selection_transforms w = target # rest"
  then have "target \<in> set (ls_selection_transforms w)" by simp
  then have ex: "target \<in> set (nodes w)" by (simp add: ls_selection_transforms_def)
  from cmds_duplicate_obs [OF ex, of "target @ ''_split''"] obtain d w1 where
    d: "cmds_duplicate w target (target @ ''_split'') = Some (d, w1)" "d \<notin> set (nodes w)"
       "d \<in> set (nodes w1)" "set (nodes w) \<subseteq> set (nodes w1)" "warnings w1 = warnings w"
    by blast
  define w2 where "w2 = w1\<lparr>attrs := (attrs w1)((target, ''visibility'') \<mapsto> 0)\<rparr>"
  have h: "cmds_hide w1 target = Some w2"
    using ex d(4) by (auto simp: cmds_hide_def cmds_setAttr_def objExists_def w2_def)
  define w3 where "w3 = (case text_edit_label w2 ''status_text''
                              (''Status: '' @ target @ '' ready for splitting'') of
                         None \<Rightarrow> w2 | Some w3 \<Rightarrow> w3)"
  have o3: "nodes w3 = nodes w2" "attrs w3 = attrs w2" "warnings w3 = warnings w2"
    by (auto simp: w3_def text_edit_label_def split: option.splits control.splits)
  have e: "setup_geometry s w = Returned (s\<lparr>target_geo := Some target, duplicated_geo := Some d\<rparr>) w3"
    by (simp add: setup_geometry_def sel d(1) h w3_def Let_def)
  show "returned (setup_geometry s w)" by (simp add: e)
  show "target_geo (session_of (setup_geometry s w)) = Some target" by (simp add: e)
  show "\<exists>d. duplicated_geo (session_of (setup_geometry s w)) = Some d \<and>
           d \<in> set (nodes (scene_of (setup_geometry s w))) \<and> d \<notin> set (nodes w)"
    using d by (auto simp: e o3 w2_def)
  show "attrs (scene_of (setup_geometry s w)) (target, ''visibility'') = Some 0"
    by (simp add: e o3 w2_def)
  show "warnings (scene_of (setup_geometry s w)) = warnings w"
    by (simp add: e o3 w2_def d)
qed

text \<open>
  Claim C5, amended. With no transform selected \<^verbatim>\<open>setup_geometry\<close> adds one warning
  and changes nothing else, neither in the session nor in the scene. With at least one
  transform selected it takes the first one as target, records a new node as its
  duplicate, hides the target and warns of nothing.
\<close>

theorem setup_geometry_needs_selection:
  "(ls_selection_transforms w = [] \<longrightarrow>
      setup_geometry s w =
        Returned s (w\<lparr>warnings := warnings w @ [''Please select a geometry object first!'']\<rparr>)) \<and>
   (\<forall>target rest. ls_selection_transforms w = target # rest \<longrightarrow>
      returned (setup_geometry s w) \<and>
      target_geo (session_of (setup_geometry s w)) = Some target \<and>
      (\<exists>d. duplicated_geo (session_of (setup_geometry s w)) = Some d \<and>
           d \<in> set (nodes (scene_of (setup_geometry s w))) \<and> d \<notin> set (nodes w)) \<and>
      attrs (scene_of (setup_geometry s w)) (target, ''visibility'') = Some 0 \<and>
      warnings (scene_of (setup_geometry s w)) = warnings w)"
  by (rule setup_geometry_cases)

lemma execute_split_blocked:
  "ls_type w CurveVarGroup = [] \<Longrightarrow>
     execute_split s w = Returned s (w\<lparr>warnings := warnings w @ [''No projected curve found!'']\<rparr>)"
  by (simp add: execute_split_def cmds_warning_def)

lemma execute_split_proceeds:
  assumes "ls_type w CurveVarGroup \<noteq> []" and "duplicated_geo s = Some d" and "d \<in> set (nodes w)"
  shows "returned (execute_split s w)" "session_of (execute_split s w) = s"
    "calls (scene_of (execute_split s w)) =
       calls w @ [SplitMeshWithProjectedCurve (ls_type w CurveVarGroup @ [d])
                    (Some (if checkBox_query w ''detachEdges'' = Some False then 1 else 2))]"
    "selection (scene_of (execute_split s w)) = ls_type w CurveVarGroup @ [d]"
    "nodes (scene_of (execute_split s w)) = nodes w"
proof -
  obtain g gs where g: "ls_type w CurveVarGroup = g # gs" using assms(1) by (cases "ls_type w CurveVarGroup") auto
  define v :: int where "v = (if (case checkBox_query w ''detachEdges'' of None \<Rightarrow> True | Some b \<Rightarrow> b) then 2 else 1)"
  have v: "v = (if checkBox_query w ''detachEdges'' = Some False then 1 else 2)"
    by (auto simp: v_def split: option.splits)
  define w1 where "w1 = cmds_optionVar w ''splitPolyWithCurveOperation'' v"
  have n1: "nodes w1 = nodes w" "calls w1 = calls w" "option_vars w1 ''splitPolyWithCurveOperation'' = Some v"
    by (simp_all add: w1_def cmds_optionVar_def)
  define w2 where "w2 = w1\<lparr>selection := g # gs\<rparr>"
  have "\<forall>n \<in> set (g # gs). objExists w1 n"
    unfolding g [symmetric] by (simp add: ls_type_def objExists_def n1)
  then have s2: "cmds_select w1 (g # gs) = Some w2" by (simp add: cmds_select_def w2_def)
  define w3 where "w3 = w2\<lparr>selection := (g # gs) @ [d]\<rparr>"
  have s3: "cmds_select_add w2 (Some d) = Some w3"
    using assms(3) by (simp add: cmds_select_add_def objExists_def w2_def w3_def n1)
  obtain b w4 where m: "mel_eval w3 ''performSplitMeshWithProjectedCurve 0'' = (b, w4)"
    by (cases "mel_eval w3 ''performSplitMeshWithProjectedCurve 0''")
  have c4: "calls w4 = calls w @ [SplitMeshWithProjectedCurve ((g # gs) @ [d]) (Some v)]"
    "selection w4 = (g # gs) @ [d]" "nodes w4 = nodes w"
    using m by (auto simp: mel_eval_def mel_effect_def Let_def w3_def w2_def n1 split: if_splits)
  have e: "execute_split s w = Returned s (if b then w4 else cmds_warning w4 ''Split failed: '')"
    by (simp add: execute_split_def g Let_def v_def [symmetric] w1_def [symmetric] s2 assms(2) s3 m)
  show "returned (execute_split s w)" "session_of (execute_split s w) = s"
    by (simp_all add: e)
  show "calls (scene_of (execute_split s w)) =
       calls w @ [SplitMeshWithProjectedCurve (ls_type w CurveVarGroup @ [d])
                    (Some (if checkBox_query w ''detachEdges'' = Some False then 1 else 2))]"
    by (simp add: e c4 g cmds_warning_def v)
  show "selection (scene_of (execute_split s w)) = ls_type w CurveVarGroup @ [d]"
    by (simp add: e c4 g cmds_warning_def)
  show "nodes (scene_of (execute_split s w)) = nodes w"
    by (simp add: e c4 cmds_warning_def)
qed

section \<open>Conversion and projection\<close>

lemma cmds_circle_obs:
  assumes "cmds_circle w nm = (t, w')"
  shows "\<exists>sh. nodes w' = nodes w @ [t, sh] \<and> t \<notin> set (nodes w) \<and> sh \<notin> set (nodes w) \<and> sh \<noteq> t \<and>
     owner w' sh = Some t \<and> ntype w' sh = NurbsCurve \<and>
     (\<forall>m. m \<noteq> t \<and> m \<noteq> sh \<longrightarrow> owner w' m = owner w m) \<and>
     connections w' = connections w \<and> calls w' = calls w \<and> warnings w' = warnings w \<and>
     controls w' = controls w"
proof -
  define t0 where "t0 = unique_name (nodes w) nm"
  define w1 where "w1 = add_node w t0 Transform None"
  define sh where "sh = unique_name (nodes w1) (t0 @ ''Shape'')"
  have "cmds_circle w nm = (t0, add_node w1 sh NurbsCurve (Some t0))"
    by (simp add: cmds_circle_def Let_def t0_def w1_def sh_def)
  with assms have t: "t = t0" and w': "w' = add_node w1 sh NurbsCurve (Some t0)" by auto
  have f1: "t0 \<notin> set (nodes w)" unfolding t0_def by (rule unique_name_fresh)
  have "sh \<notin> set (nodes w1)" unfolding sh_def by (rule unique_name_fresh)
  then have f2: "sh \<noteq> t0" "sh \<notin> set (nodes w)" by (simp_all add: w1_def add_node_obs)
  show ?thesis
    by (rule exI [of _ sh]) (use f1 f2 in \<open>simp add: t w' w1_def add_node_obs\<close>)
qed

lemma convert_strokes_obs:
  assumes "set strokes \<subseteq> set (nodes w)"
  shows "\<exists>s' w' new ws. convert_strokes i strokes s w = Returned s' w' \<and>
     s' = s\<lparr>projection_curves := projection_curves s @ new\<rparr> \<and>
     list_all2 (wired w') (filter (\<lambda>x. x \<noteq> []) strokes) new \<and>
     distinct new \<and> set new \<inter> set (nodes w) = {} \<and> set new \<subseteq> set (nodes w') \<and>
     set (nodes w) \<subseteq> set (nodes w') \<and>
     calls w' = calls w \<and> controls w' = controls w \<and>
     warnings w' = warnings w @ ws \<and> length ws = length (filter (\<lambda>x. x = []) strokes) \<and>
     (\<forall>m \<in> set (nodes w). owner w' m = owner w m) \<and>
     (\<forall>x c. c \<in> set (nodes w) \<and> wired w x c \<longrightarrow> wired w' x c)"
  using assms
proof (induction strokes arbitrary: i s w)
  case Nil
  show ?case
    by (rule exI [of _ s], rule exI [of _ w], rule exI [of _ "[]"], rule exI [of _ "[]"]) simp
next
  case (Cons x rest)
  show ?case
  proof (cases "x = []")
    case True
    define msg where "msg = ''Paint Effects stroke '' @ str_nat (i + 1) @ '' is invalid - skipping!''"
    define w0 where "w0 = cmds_warning w msg"
    have o: "nodes w0 = nodes w" "calls w0 = calls w" "controls w0 = controls w"
      "warnings w0 = warnings w @ [msg]" "owner w0 = owner w" "connections w0 = connections w"
      by (simp_all add: w0_def cmds_warning_def)
    have wd: "\<And>y c. wired w0 y c = wired w y c" by (simp add: wired_def o)
    have e: "convert_strokes i (x # rest) s w = convert_strokes (Suc i) rest s w0"
      using True by (simp add: w0_def msg_def)
    have "set rest \<subseteq> set (nodes w0)" using Cons.prems by (simp add: o)
    from Cons.IH [OF this, of "Suc i" s] obtain s' w' new ws where
      ih: "convert_strokes (Suc i) rest s w0 = Returned s' w'"
        "s' = s\<lparr>projection_curves := projection_curves s @ new\<rparr>"
        "list_all2 (wired w') (filter (\<lambda>x. x \<noteq> []) rest) new"
        "distinct new" "set new \<inter> set (nodes w0) = {}" "set new \<subseteq> set (nodes w')"
        "set (nodes w0) \<subseteq> set (nodes w')" "calls w' = calls w0" "controls w' = controls w0"
        "warnings w' = warnings w0 @ ws" "length ws = length (filter (\<lambda>x. x = []) rest)"
        "\<forall>m \<in> set (nodes w0). owner w' m = owner w0 m"
        "\<forall>x c. c \<in> set (nodes w0) \<and> wired w0 x c \<longrightarrow> wired w' x c"
      by blast
    show ?thesis
      apply (rule exI [of _ s'], rule exI [of _ w'], rule exI [of _ new], rule exI [of _ "msg # ws"])
      apply (subst e)
      using ih True by (simp add: o wd)
  next
    case False
    have xin: "x \<in> set (nodes w)" using Cons.prems by simp
    obtain curve w1 where c: "cmds_circle w (''projCurve_'' @ format_02d (i + 1)) = (curve, w1)"
      by (cases "cmds_circle w (''projCurve_'' @ format_02d (i + 1))")
    from cmds_circle_obs [OF c] obtain sh0 where
      o1: "nodes w1 = nodes w @ [curve, sh0]" "curve \<notin> set (nodes w)" "sh0 \<notin> set (nodes w)"
        "sh0 \<noteq> curve" "owner w1 sh0 = Some curve" "ntype w1 sh0 = NurbsCurve"
        "\<forall>m. m \<noteq> curve \<and> m \<noteq> sh0 \<longrightarrow> owner w1 m = owner w m"
        "connections w1 = connections w" "calls w1 = calls w" "warnings w1 = warnings w"
        "controls w1 = controls w"
      by blast
    have "sh0 \<in> set (listRelatives_shapes w1 curve)"
      by (simp add: listRelatives_shapes_def o1)
    then obtain sh others where l: "listRelatives_shapes w1 curve = sh # others"
      by (cases "listRelatives_shapes w1 curve") auto
    then have "sh \<in> set (listRelatives_shapes w1 curve)" by simp
    then have sh: "sh \<in> set (nodes w1)" "owner w1 sh = Some curve"
      by (simp_all add: listRelatives_shapes_def)
    define s1 where "s1 = s\<lparr>projection_curves := projection_curves s @ [curve]\<rparr>"
    define w2 where "w2 = w1\<lparr>connections :=
        filter (\<lambda>c. snd c \<noteq> (sh, ''create'')) (connections w1) @
          [((x, ''outMainCurves[0]''), (sh, ''create''))]\<rparr>"
    have ca: "cmds_connectAttr w1 (x, ''outMainCurves[0]'') (sh, ''create'') = Some w2"
      using xin sh by (simp add: cmds_connectAttr_def objExists_def o1 w2_def)
    have o2: "nodes w2 = nodes w1" "owner w2 = owner w1" "calls w2 = calls w1"
      "warnings w2 = warnings w1" "controls w2 = controls w1"
      by (simp_all add: w2_def)
    have e: "convert_strokes i (x # rest) s w = convert_strokes (Suc i) rest s1 w2"
      using False xin c l ca by (simp add: objExists_def s1_def Let_def)
    have "set rest \<subseteq> set (nodes w2)" using Cons.prems by (auto simp: o2 o1)
    from Cons.IH [OF this, of "Suc i" s1] obtain s' w' new ws where
      ih: "convert_strokes (Suc i) rest s1 w2 = Returned s' w'"
        "s' = s1\<lparr>projection_curves := projection_curves s1 @ new\<rparr>"
        "list_all2 (wired w') (filter (\<lambda>x. x \<noteq> []) rest) new"
        "distinct new" "set new \<inter> set (nodes w2) = {}" "set new \<subseteq> set (nodes w')"
        "set (nodes w2) \<subseteq> set (nodes w')" "calls w' = calls w2" "controls w' = controls w2"
        "warnings w' = warnings w2 @ ws" "length ws = length (filter (\<lambda>x. x = []) rest)"
        "\<forall>m \<in> set (nodes w2). owner w' m = owner w2 m"
        "\<forall>x c. c \<in> set (nodes w2) \<and> wired w2 x c \<longrightarrow> wired w' x c"
      by blast
    have w2head: "wired w2 x curve"
      unfolding wired_def using sh by (intro bexI [of _ sh]) (simp_all add: w2_def)
    have keep: "wired w2 y c" if "c \<in> set (nodes w)" "wired w y c" for y c
    proof -
      from that(2) obtain dn where dn: "dn \<in> set (nodes w)" "owner w dn = Some c"
        "((y, ''outMainCurves[0]''), (dn, ''create'')) \<in> set (connections w)"
        by (auto simp: wired_def)
      have "dn \<noteq> curve" "dn \<noteq> sh0" using dn(1) o1 by auto
      then have own: "owner w1 dn = Some c" using o1(7) dn(2) by simp
      have "c \<noteq> curve" using that(1) o1(2) by auto
      then have "dn \<noteq> sh" using own sh(2) by auto
      then have "((y, ''outMainCurves[0]''), (dn, ''create'')) \<in> set (connections w2)"
        using dn(3) by (simp add: w2_def o1)
      moreover have "dn \<in> set (nodes w2)" using dn(1) by (simp add: o2 o1)
      moreover have "owner w2 dn = Some c" using own by (simp add: o2)
      ultimately show ?thesis unfolding wired_def by blast
    qed
    have cin: "curve \<in> set (nodes w2)" by (simp add: o2 o1)
    have own_pres: "\<forall>m \<in> set (nodes w). owner w' m = owner w m"
    proof
      fix m assume m: "m \<in> set (nodes w)"
      then have "m \<noteq> curve" "m \<noteq> sh0" using o1 by auto
      then have "owner w1 m = owner w m" using o1(7) by simp
      moreover have "m \<in> set (nodes w2)" using m by (simp add: o2 o1)
      ultimately show "owner w' m = owner w m" using ih(12) by (simp add: o2)
    qed
    show ?thesis
      apply (rule exI [of _ s'], rule exI [of _ w'], rule exI [of _ "curve # new"], rule exI [of _ ws])
      apply (intro conjI)
                  apply (subst e, rule ih(1))
                 apply (simp add: ih(2) s1_def)
                apply (use False ih(3) ih(13) w2head cin in simp)
               apply (use ih(4) ih(5) cin in auto)[1]
              apply (use ih(5) o1(1,2) o2(1) in auto)[1]
             apply (use ih(6) ih(7) cin in auto)[1]
            apply (use ih(7) o1(1) o2(1) in auto)[1]
           apply (simp add: ih(8) o2 o1)
          apply (simp add: ih(9) o2 o1)
         apply (simp add: ih(10) o2 o1)
        apply (use False ih(11) in simp)
       apply (rule own_pres)
      apply (use keep ih(13) o1(1) o2(1) in auto)[1]
      done
  qed
qed





section \<open>The example session\<close>


lemma painted_state:
  "returned activated \<and>
   session_of painted = init\<lparr>target_geo := Some ''pCube1'', duplicated_geo := Some ''pCube1_split'',
      temp_plane := Some ''ddSplit_tempPlane'',
      original_camera_state := Some \<lparr>camera = ''persp'', camera_shape = ''perspShape'',
         orthographic = 0, orthographicWidth = 30\<rparr>,
      gui_window := Some ''ddPFXSplit_window''\<rparr> \<and>
   nodes (scene_of painted) =
     [''persp'', ''perspShape'', ''pCube1'', ''pCubeShape1'', ''pCube1_split'', ''pCubeShape11'',
      ''ddSplit_tempPlane'', ''ddSplit_tempPlaneShape'', ''polyPlane1'', ''stroke1'', ''stroke1Shape''] \<and>
   attrs (scene_of painted) (''perspShape'', ''orthographic'') = Some 1 \<and>
   attrs (scene_of painted) (''perspShape'', ''orthographicWidth'') = Some 6 \<and>
   attrs (scene_of painted) (''pCube1'', ''visibility'') = Some 0"
  by code_simp

section \<open>Instances of the properties at the example scenes\<close>

theorem finish_restores_camera_keeps_visibility_witness:
  "attrs (scene_of painted) (''perspShape'', ''orthographicWidth'') = Some 6 \<and>
   attrs (scene_of (and_then painted finish_and_cleanup)) (''perspShape'', ''orthographic'') = Some 0 \<and>
   attrs (scene_of (and_then painted finish_and_cleanup)) (''perspShape'', ''orthographicWidth'') = Some 30 \<and>
   attrs (scene_of (and_then painted finish_and_cleanup)) (''pCube1'', ''visibility'') = Some 0"
  using finish_restores_camera_keeps_visibility [of "session_of painted" "scene_of painted"]
    painted_state
  by (simp add: and_then_def init_def)


theorem setup_geometry_needs_selection_witness:
  "ls_selection_transforms nothing_selected = [] \<and>
   setup_geometry init nothing_selected =
     Returned init (nothing_selected\<lparr>warnings := [''Please select a geometry object first!'']\<rparr>) \<and>
   ls_selection_transforms studio = [''pCube1''] \<and>
   returned (setup_geometry init studio) \<and>
   target_geo (session_of (setup_geometry init studio)) = Some ''pCube1'' \<and>
   attrs (scene_of (setup_geometry init studio)) (''pCube1'', ''visibility'') = Some 0"
proof -
  have a: "ls_selection_transforms nothing_selected = []" "warnings nothing_selected = []"
    by (simp_all add: ls_selection_transforms_def nothing_selected_def studio_def)
  have b: "ls_selection_transforms studio = [''pCube1'']"
    by (simp add: ls_selection_transforms_def studio_def)
  from setup_geometry_needs_selection [of nothing_selected init]
    setup_geometry_needs_selection [of studio init] a b
  show ?thesis by simp
qed

theorem setup_with_two_selected:
  "ls_selection_transforms two_selected = [''pCube1'', ''persp''] \<and>
   returned (setup_geometry init two_selected) \<and>
   target_geo (session_of (setup_geometry init two_selected)) = Some ''pCube1'' \<and>
   duplicated_geo (session_of (setup_geometry init two_selected)) = Some ''pCube1_split'' \<and>
   warnings (scene_of (setup_geometry init two_selected)) = []"
  by code_simp


lemma example_scene_facts:
  "nodes projected = [''persp'', ''perspShape'', ''pCube1'', ''pCubeShape1'',
      ''polyProjectionCurve1'', ''pCube1_split'']"
  "ntype projected ''polyProjectionCurve1'' = CurveVarGroup"
  "ntype projected ''pCube1_split'' = Transform"
  "checkBox_query projected ''keepHistory'' = None"
  "checkBox_query projected ''detachEdges'' = None"
  "ls_type projected CurveVarGroup = [''polyProjectionCurve1'']"
  "ls_type studio CurveVarGroup = []"
  "ends_with ''_split'' ''pCube1_split''"
  "ntype drawn ''stroke1Shape'' = Stroke"
  "''stroke1Shape'' \<in> set (nodes drawn)"
  "owner drawn ''stroke1Shape'' = Some ''stroke1''"
  "duplicated_geo orphaned = Some ''pCube1_split''"
  "temp_plane orphaned = None"
  "projection_curves orphaned = []"
  by code_simp+

lemma kept_scene_facts:
  "''oldCurves'' \<in> set (nodes kept_scene)"
  "ntype kept_scene ''oldCurves'' = CurveVarGroup"
  "owner kept_scene ''oldCurves'' = None"
  "\<not> ends_with ''_split'' ''oldCurves''"
  "''oldCurves'' \<notin> set (pfx_transforms_of kept_scene)"
  "''oldCurves'' \<notin> set (cleanup_curves orphaned kept_scene)"
  "checkBox_query kept_scene ''keepHistory'' = Some True"
  "ntype kept_scene ''stroke1Shape'' = Stroke"
  by code_simp+


theorem finish_keeps_foreign_group:
  "''oldCurves'' \<in> set (nodes kept_scene) \<and>
   checkBox_query kept_scene ''keepHistory'' = Some True \<and>
   returned (convert_and_project orphaned kept_scene) \<and>
   ls_type (scene_of (convert_and_project orphaned kept_scene)) CurveVarGroup =
     [''oldCurves'', ''polyProjectionCurve1''] \<and>
   ls_type (scene_of (and_then (convert_and_project orphaned kept_scene) finish_and_cleanup))
     CurveVarGroup = [''oldCurves'', ''polyProjectionCurve1'']"
  by code_simp

theorem finish_removes_session_nodes_witness:
  "checkBox_query kept_scene ''keepHistory'' = Some True \<and>
   ''oldCurves'' \<in> set (nodes (scene_of (finish_and_cleanup orphaned kept_scene))) \<and>
   ''stroke1Shape'' \<notin> set (nodes (scene_of (finish_and_cleanup orphaned kept_scene))) \<and>
   checkBox_query projected ''keepHistory'' \<noteq> Some True \<and>
   ''polyProjectionCurve1'' \<notin> set (nodes (scene_of (finish_and_cleanup orphaned projected))) \<and>
   ''pCube1_split'' \<notin> set (history (scene_of (finish_and_cleanup orphaned projected)))"
proof -
  note k = kept_scene_facts and f = example_scene_facts
  from finish_removes_session_nodes [of orphaned kept_scene] k(7)
  have a: "\<forall>g \<in> set (nodes kept_scene). ntype kept_scene g = CurveVarGroup \<and> owner kept_scene g = None \<and>
          \<not> ends_with ''_split'' g \<and> g \<notin> set (pfx_transforms_of kept_scene) \<and>
          g \<notin> set (cleanup_curves orphaned kept_scene) \<and> temp_plane orphaned \<noteq> Some g \<longrightarrow>
          g \<in> set (nodes (scene_of (finish_and_cleanup orphaned kept_scene)))"
    and b: "\<forall>n. ntype kept_scene n = Stroke \<longrightarrow>
          n \<notin> set (nodes (scene_of (finish_and_cleanup orphaned kept_scene)))"
    by blast+
  from finish_removes_session_nodes [of orphaned projected] f(4)
  have c: "\<forall>g. ntype projected g = CurveVarGroup \<longrightarrow>
          g \<notin> set (nodes (scene_of (finish_and_cleanup orphaned projected)))"
    and d: "\<forall>d. duplicated_geo orphaned = Some d \<and> d \<noteq> [] \<and> d \<in> set (nodes projected) \<longrightarrow>
        d \<notin> set (history (scene_of (finish_and_cleanup orphaned projected)))"
    by simp_all
  have 1: "''oldCurves'' \<in> set (nodes (scene_of (finish_and_cleanup orphaned kept_scene)))"
    using a [rule_format, OF k(1)] k f(13) by simp
  have 2: "''stroke1Shape'' \<notin> set (nodes (scene_of (finish_and_cleanup orphaned kept_scene)))"
    using b k(8) by blast
  have 3: "''polyProjectionCurve1'' \<notin> set (nodes (scene_of (finish_and_cleanup orphaned projected)))"
    using c f(2) by blast
  have 4: "''pCube1_split'' \<notin> set (history (scene_of (finish_and_cleanup orphaned projected)))"
    using d f(12) by (simp add: f(1))
  show ?thesis using 1 2 3 4 by (simp add: k f)
qed

text \<open>
  Claim C6, amended. Without a curve-variation group \<^verbatim>\<open>execute_split\<close> adds one warning
  and does nothing else. With at least one group, and with the duplicated geometry of
  the session in the scene, it returns after exactly one call of the split operator; the
  operator runs on the selection made of all the groups of the scene followed by the
  duplicated geometry, and finds the option variable set to 1 when the detach checkbox
  is there and unset and to 2 otherwise.
\<close>

theorem execute_split_runs_once:
  "(ls_type w CurveVarGroup = [] \<longrightarrow>
      execute_split s w = Returned s (w\<lparr>warnings := warnings w @ [''No projected curve found!'']\<rparr>)) \<and>
   (\<forall>d. ls_type w CurveVarGroup \<noteq> [] \<and> duplicated_geo s = Some d \<and> d \<in> set (nodes w) \<longrightarrow>
      returned (execute_split s w) \<and> session_of (execute_split s w) = s \<and>
      calls (scene_of (execute_split s w)) =
        calls w @ [SplitMeshWithProjectedCurve (ls_type w CurveVarGroup @ [d])
                     (Some (if checkBox_query w ''detachEdges'' = Some False then 1 else 2))] \<and>
      selection (scene_of (execute_split s w)) = ls_type w CurveVarGroup @ [d])"
  using execute_split_blocked [of w s] execute_split_proceeds [of w s]
  by blast

theorem execute_split_runs_once_witness:
  "ls_type studio CurveVarGroup = [] \<and>
   execute_split orphaned studio =
     Returned orphaned (studio\<lparr>warnings := warnings studio @ [''No projected curve found!'']\<rparr>) \<and>
   ls_type projected CurveVarGroup \<noteq> [] \<and> duplicated_geo orphaned = Some ''pCube1_split'' \<and>
   ''pCube1_split'' \<in> set (nodes projected) \<and>
   returned (execute_split orphaned projected) \<and>
   calls (scene_of (execute_split orphaned projected)) =
     calls projected @ [SplitMeshWithProjectedCurve [''polyProjectionCurve1'', ''pCube1_split''] (Some 2)]"
  using execute_split_runs_once [of studio orphaned] execute_split_runs_once [of projected orphaned]
  by (simp add: example_scene_facts)

theorem split_without_duplicate:
  "ls_type projected_only CurveVarGroup = [''polyProjectionCurve1''] \<and>
   duplicated_geo orphaned = Some ''pCube1_split'' \<and>
   ''pCube1_split'' \<notin> set (nodes projected_only) \<and>
   returned (execute_split orphaned projected_only) \<and>
   filter is_split (calls (scene_of (execute_split orphaned projected_only))) = [] \<and>
   warnings (scene_of (execute_split orphaned projected_only)) = [''Split failed: '']"
  by code_simp

lemma projection_settings_cong:
  assumes "controls w1 = controls w"
  shows "projection_settings w1 = projection_settings w"
proof -
  have q: "intField_query w1 = intField_query w" "floatField_query w1 = floatField_query w"
    "checkBox_query w1 = checkBox_query w"
    by (simp_all add: fun_eq_iff intField_query_def floatField_query_def checkBox_query_def assms)
  show ?thesis unfolding projection_settings_def q by (rule refl)
qed






lemma cmds_polyProjectCurve_calls:
  "calls (snd (cmds_polyProjectCurve w c mesh poe cs au tol)) =
     calls w @ [PolyProjectCurve c mesh poe cs au tol]"
  by (simp add: cmds_polyProjectCurve_def Let_def add_node_obs split: option.splits)

lemma project_curves_calls:
  "\<exists>k. calls (snd (snd (project_curves curves mesh (cs, tol, poe, au) acc w))) =
     calls w @ map (\<lambda>c. PolyProjectCurve c mesh poe cs au tol) (take k curves)"
proof (induction curves arbitrary: acc w)
  case Nil
  show ?case by simp
next
  case (Cons c curves)
  obtain r w1 where p: "cmds_polyProjectCurve w c mesh poe cs au tol = (r, w1)"
    by (cases "cmds_polyProjectCurve w c mesh poe cs au tol")
  have c1: "calls w1 = calls w @ [PolyProjectCurve c mesh poe cs au tol]"
    using cmds_polyProjectCurve_calls [of w c mesh poe cs au tol] by (simp add: p)
  show ?case
  proof (cases r)
    case None
    then show ?thesis by (intro exI [of _ 1]) (simp add: p c1)
  next
    case (Some result)
    from Cons.IH [of "acc @ [snd result]" w1] obtain k where
      "calls (snd (snd (project_curves curves mesh (cs, tol, poe, au) (acc @ [snd result]) w1))) =
         calls w1 @ map (\<lambda>c. PolyProjectCurve c mesh poe cs au tol) (take k curves)"
      by blast
    then show ?thesis by (intro exI [of _ "Suc k"]) (simp add: p Some c1)
  qed
qed

lemma convert_and_project_returns:
  "returned (convert_and_project s w) \<and>
   (case projection_settings w of (cs, tol, poe, au) \<Rightarrow>
      \<exists>k. calls (scene_of (convert_and_project s w)) =
        calls w @ map (\<lambda>c. PolyProjectCurve c (duplicated_geo s) poe cs au tol)
                    (take k (projection_curves (session_of (convert_and_project s w)))))"
proof (cases "ls_type w Stroke")
  case Nil
  then have e: "convert_and_project s w = Returned s (cmds_warning w ''No Paint Effects stroke found!'')"
    by (simp add: convert_and_project_def)
  show ?thesis
    by (cases "projection_settings w") (auto simp: e cmds_warning_def intro: exI [of _ 0])
next
  case (Cons stroke others)
  have sub: "set (stroke # others) \<subseteq> set (nodes w)"
    unfolding Cons [symmetric] by (auto simp: ls_type_def)
  define s0 where "s0 = s\<lparr>projection_curves := []\<rparr>"
  from convert_strokes_obs [OF sub, of 0 s0] obtain s1 w1 new where
    c: "convert_strokes 0 (stroke # others) s0 w = Returned s1 w1"
      "s1 = s0\<lparr>projection_curves := projection_curves s0 @ new\<rparr>"
      "calls w1 = calls w" "controls w1 = controls w"
    by blast
  have pc1: "projection_curves s1 = new" and dg1: "duplicated_geo s1 = duplicated_geo s"
    by (simp_all add: c(2) s0_def)
  obtain cs tol poe au where ps: "projection_settings w = (cs, tol, poe, au)"
    by (cases "projection_settings w") auto
  have ps1: "projection_settings w1 = (cs, tol, poe, au)"
    using projection_settings_cong [OF c(4)] ps by simp
  show ?thesis
  proof (cases new)
    case Nil
    have e: "convert_and_project s w =
        Returned s1 (cmds_warning w1 ''No valid projection curves created!'')"
      by (simp add: convert_and_project_def Cons s0_def [symmetric] c(1) pc1 Nil
            del: convert_strokes.simps)
    show ?thesis by (simp add: e ps cmds_warning_def c(3))
  next
    case new: (Cons first rest)
    define s2 where "s2 = s1\<lparr>projection_curve := Some first\<rparr>"
    have pc2: "projection_curves s2 = new" and dg2: "duplicated_geo s2 = duplicated_geo s"
      by (simp_all add: s2_def pc1 dg1)
    obtain ok gs w2 where p: "project_curves new (duplicated_geo s) (cs, tol, poe, au) [] w1 = (ok, gs, w2)"
      by (metis surj_pair)
    from project_curves_calls [of new "duplicated_geo s" cs tol poe au "[]" w1] obtain k where
      k: "calls w2 = calls w1 @ map (\<lambda>c. PolyProjectCurve c (duplicated_geo s) poe cs au tol) (take k new)"
      by (auto simp: p)
    have e: "convert_and_project s w =
        Returned s2 (if ok then w2 else cmds_warning w2 ''Projection failed: '')"
      using p
      by (simp add: convert_and_project_def Cons s0_def [symmetric] c(1) pc1 new s2_def [symmetric]
            Let_def pc2 [unfolded new] dg2 ps1 del: convert_strokes.simps project_curves.simps)
    show ?thesis
      by (auto simp: e ps pc2 k c(3) cmds_warning_def intro: exI [of _ k])
  qed
qed

lemma execute_split_returns:
  "returned (execute_split s w) \<and>
   (ls_type w CurveVarGroup \<noteq> [] \<and> checkBox_query w ''detachEdges'' = None \<longrightarrow>
      option_vars (scene_of (execute_split s w)) ''splitPolyWithCurveOperation'' = Some 2)"
proof (cases "ls_type w CurveVarGroup")
  case Nil
  then show ?thesis by (simp add: execute_split_def)
next
  case (Cons g gs)
  define v :: int where
    "v = (if (case checkBox_query w ''detachEdges'' of None \<Rightarrow> True | Some b \<Rightarrow> b) then 2 else 1)"
  define w1 where "w1 = cmds_optionVar w ''splitPolyWithCurveOperation'' v"
  have o1: "option_vars w1 ''splitPolyWithCurveOperation'' = Some v" "nodes w1 = nodes w"
    by (simp_all add: w1_def cmds_optionVar_def)
  define w2 where "w2 = w1\<lparr>selection := g # gs\<rparr>"
  have "\<forall>n \<in> set (g # gs). objExists w1 n"
    unfolding Cons [symmetric] by (simp add: ls_type_def objExists_def o1)
  then have s2: "cmds_select w1 (g # gs) = Some w2" by (simp add: cmds_select_def w2_def)
  have o2: "option_vars w2 = option_vars w1" by (simp add: w2_def)
  have "returned (execute_split s w) \<and>
      option_vars (scene_of (execute_split s w)) ''splitPolyWithCurveOperation'' = Some v"
  proof (cases "cmds_select_add w2 (duplicated_geo s)")
    case None
    then have "execute_split s w = Returned s (cmds_warning w2 ''Split failed: '')"
      by (simp add: execute_split_def Cons Let_def v_def [symmetric] w1_def [symmetric] s2)
    then show ?thesis by (simp add: cmds_warning_def o2 o1)
  next
    case (Some w3)
    then have o3: "option_vars w3 = option_vars w2"
      by (auto simp: cmds_select_add_def split: option.splits if_splits)
    obtain b w4 where m: "mel_eval w3 ''performSplitMeshWithProjectedCurve 0'' = (b, w4)"
      by (cases "mel_eval w3 ''performSplitMeshWithProjectedCurve 0''")
    have o4: "option_vars w4 = option_vars w3"
      using mel_eval_obs(9) [of w3 "''performSplitMeshWithProjectedCurve 0''"] by (simp add: m)
    have "execute_split s w = Returned s (if b then w4 else cmds_warning w4 ''Split failed: '')"
      by (simp add: execute_split_def Cons Let_def v_def [symmetric] w1_def [symmetric] s2 Some m)
    then show ?thesis by (simp add: cmds_warning_def o4 o3 o2 o1)
  qed
  then show ?thesis by (auto simp: v_def)
qed

lemma activate_paint_effects_returns:
  assumes "temp_plane s = Some plane" and "plane \<noteq> []" and "plane \<in> set (nodes w)"
  shows "returned (activate_paint_effects s w) \<and> session_of (activate_paint_effects s w) = s \<and>
     nodes (scene_of (activate_paint_effects s w)) = nodes w \<and>
     warnings (scene_of (activate_paint_effects s w)) = warnings w"
proof -
  define w1 where "w1 = load_default_paint w"
  define w2 where "w2 = (case cmds_dynWireCtx_dam w1 False of None \<Rightarrow> w1 | Some w' \<Rightarrow> w')"
  have o2: "nodes w2 = nodes w" "warnings w2 = warnings w"
    by (auto simp: w2_def w1_def cmds_dynWireCtx_dam_def load_default_paint_obs split: option.splits)
  define w3 where "w3 = w2\<lparr>selection := [plane]\<rparr>"
  have sel: "cmds_select w2 [plane] = Some w3"
    using assms(3) by (simp add: cmds_select_def objExists_def o2 w3_def)
  have e: "activate_paint_effects s w = Returned s (snd (mel_eval w3 ''MakePaintable''))"
    using assms(1,2)
    by (simp add: activate_paint_effects_def Let_def w1_def [symmetric] w2_def [symmetric] sel)
  show ?thesis by (simp add: e mel_eval_obs w3_def o2)
qed

lemma activate_paint_tool_needs_target:
  assumes "target_geo s = Some t" and "t \<noteq> []" and "t \<notin> set (nodes w)"
  shows "\<not> returned (activate_paint_tool s w)"
proof -
  have "\<not> returned (setup_orthographic_camera s w)"
    using assms
    by (auto simp: setup_orthographic_camera_def Let_def cmds_exactWorldBoundingBox_def
          objExists_def split: option.splits list.splits)
  then obtain s1 w1 where "setup_orthographic_camera s w = Raised s1 w1"
    by (cases "setup_orthographic_camera s w") auto
  then show ?thesis using assms by (simp add: activate_paint_tool_def truthy_def)
qed

lemma setup_geometry_blocked:
  "ls_selection_transforms w = [] \<Longrightarrow>
     setup_geometry s w = Returned s (cmds_warning w ''Please select a geometry object first!'')"
  by (simp add: setup_geometry_def)

text \<open>
  Claim C8, amended. A soft operation that fails is caught without a warning and the
  handler goes on: \<^verbatim>\<open>activate_paint_effects\<close> returns with the plane selected whichever
  MEL command fails and whether the tool context exists or not; a control query that
  raises leaves its setting, and the settings queried after it, at the defaults
  (curveSamples 50, tolerance 0.001, pointsOnEdges off, automatic on; and the detach
  value of the split option); \<^verbatim>\<open>convert_and_project\<close> and \<^verbatim>\<open>execute_split\<close> always
  return, and every projection call carries the settings so obtained. Each of the four
  entry checks returns with one warning and no other change. They are not the only way
  a stage is stopped: when the target geometry is no longer in the scene,
  \<^verbatim>\<open>activate_paint_tool\<close> does not return, because the exception of a required host call
  is not caught.
\<close>

theorem soft_failures_fall_back:
  "(\<forall>plane r dw. temp_plane s = Some plane \<and> plane \<noteq> [] \<and> plane \<in> set (nodes w) \<longrightarrow>
      returned (activate_paint_effects s (w\<lparr>mel_raises := r, dyn_wire_dam := dw\<rparr>)) \<and>
      session_of (activate_paint_effects s (w\<lparr>mel_raises := r, dyn_wire_dam := dw\<rparr>)) = s \<and>
      nodes (scene_of (activate_paint_effects s (w\<lparr>mel_raises := r, dyn_wire_dam := dw\<rparr>))) = nodes w \<and>
      warnings (scene_of (activate_paint_effects s (w\<lparr>mel_raises := r, dyn_wire_dam := dw\<rparr>))) =
        warnings w) \<and>
   (intField_query w ''curveSamples'' = None \<longrightarrow> projection_settings w = (50, 0.001, False, True)) \<and>
   (\<forall>cs. intField_query w ''curveSamples'' = Some cs \<and> floatField_query w ''projTolerance'' = None \<longrightarrow>
      projection_settings w = (cs, 0.001, False, True)) \<and>
   (\<forall>cs tol. intField_query w ''curveSamples'' = Some cs \<and>
      floatField_query w ''projTolerance'' = Some tol \<and> checkBox_query w ''pointsOnEdges'' = None \<longrightarrow>
      projection_settings w = (cs, tol, False, True)) \<and>
   (\<forall>cs tol poe. intField_query w ''curveSamples'' = Some cs \<and>
      floatField_query w ''projTolerance'' = Some tol \<and> checkBox_query w ''pointsOnEdges'' = Some poe \<and>
      checkBox_query w ''automatic'' = None \<longrightarrow>
      projection_settings w = (cs, tol, poe, True)) \<and>
   returned (convert_and_project s w) \<and>
   (case projection_settings w of (cs, tol, poe, au) \<Rightarrow>
      \<exists>k. calls (scene_of (convert_and_project s w)) =
        calls w @ map (\<lambda>c. PolyProjectCurve c (duplicated_geo s) poe cs au tol)
                    (take k (projection_curves (session_of (convert_and_project s w))))) \<and>
   returned (execute_split s w) \<and>
   (ls_type w CurveVarGroup \<noteq> [] \<and> checkBox_query w ''detachEdges'' = None \<longrightarrow>
      option_vars (scene_of (execute_split s w)) ''splitPolyWithCurveOperation'' = Some 2) \<and>
   (ls_selection_transforms w = [] \<longrightarrow>
      setup_geometry s w = Returned s (cmds_warning w ''Please select a geometry object first!'')) \<and>
   (\<not> truthy (target_geo s) \<longrightarrow>
      activate_paint_tool s w = Returned s (cmds_warning w ''Please setup geometry first!'')) \<and>
   (ls_type w Stroke = [] \<longrightarrow>
      convert_and_project s w = Returned s (cmds_warning w ''No Paint Effects stroke found!'')) \<and>
   (ls_type w CurveVarGroup = [] \<longrightarrow>
      execute_split s w = Returned s (cmds_warning w ''No projected curve found!'')) \<and>
   (\<forall>t. target_geo s = Some t \<and> t \<noteq> [] \<and> t \<notin> set (nodes w) \<longrightarrow>
      \<not> returned (activate_paint_tool s w))"
proof (intro conjI allI impI)
  fix plane r dw
  assume a: "temp_plane s = Some plane \<and> plane \<noteq> [] \<and> plane \<in> set (nodes w)"
  then have "plane \<in> set (nodes (w\<lparr>mel_raises := r, dyn_wire_dam := dw\<rparr>))" by simp
  from activate_paint_effects_returns [OF _ _ this, of s] a
  show "returned (activate_paint_effects s (w\<lparr>mel_raises := r, dyn_wire_dam := dw\<rparr>))"
    "session_of (activate_paint_effects s (w\<lparr>mel_raises := r, dyn_wire_dam := dw\<rparr>)) = s"
    "nodes (scene_of (activate_paint_effects s (w\<lparr>mel_raises := r, dyn_wire_dam := dw\<rparr>))) = nodes w"
    "warnings (scene_of (activate_paint_effects s (w\<lparr>mel_raises := r, dyn_wire_dam := dw\<rparr>))) =
        warnings w"
    by simp_all
next
  show "returned (convert_and_project s w)" using convert_and_project_returns [of s w] by simp
  show "case projection_settings w of (cs, tol, poe, au) \<Rightarrow>
      \<exists>k. calls (scene_of (convert_and_project s w)) =
        calls w @ map (\<lambda>c. PolyProjectCurve c (duplicated_geo s) poe cs au tol)
                    (take k (projection_curves (session_of (convert_and_project s w))))"
    using convert_and_project_returns [of s w] by simp
  show "returned (execute_split s w)" using execute_split_returns [of s w] by simp
next
  assume "ls_type w CurveVarGroup \<noteq> [] \<and> checkBox_query w ''detachEdges'' = None"
  then show "option_vars (scene_of (execute_split s w)) ''splitPolyWithCurveOperation'' = Some 2"
    using execute_split_returns [of s w] by simp
next
  fix t assume "target_geo s = Some t \<and> t \<noteq> [] \<and> t \<notin> set (nodes w)"
  then show "\<not> returned (activate_paint_tool s w)"
    using activate_paint_tool_needs_target [of s t w] by simp
qed (simp_all add: projection_settings_def setup_geometry_blocked activate_paint_tool_def
       convert_and_project_def execute_split_def)

theorem activation_aborts_without_target:
  "target_geo orphaned = Some ''pCube1'' \<and> ''pCube1'' \<notin> set (nodes cleared) \<and>
   \<not> returned (activate_paint_tool orphaned cleared) \<and>
   warnings (scene_of (activate_paint_tool orphaned cleared)) = []"
  by code_simp

lemma easel_facts:
  "temp_plane painting = Some ''ddSplit_tempPlane''"
  "''ddSplit_tempPlane'' \<in> set (nodes easel)"
  "intField_query easel ''curveSamples'' = None"
  "target_geo orphaned = Some ''pCube1''"
  "''pCube1'' \<notin> set (nodes cleared)"
  "ls_type studio Stroke = []"
  "\<not> truthy (target_geo init)"
  "ls_selection_transforms nothing_selected = []"
  by code_simp+

theorem soft_failures_fall_back_witness:
  "temp_plane painting = Some ''ddSplit_tempPlane'' \<and> ''ddSplit_tempPlane'' \<in> set (nodes easel) \<and>
   returned (activate_paint_effects painting (easel\<lparr>mel_raises := (\<lambda>_. True), dyn_wire_dam := None\<rparr>)) \<and>
   intField_query easel ''curveSamples'' = None \<and>
   projection_settings easel = (50, 0.001, False, True) \<and>
   projection_settings (easel\<lparr>controls := (\<lambda>_. None)(''curveSamples'' \<mapsto> (window_name, IntField 80))\<rparr>)
     = (80, 0.001, False, True) \<and>
   projection_settings (easel\<lparr>controls := (\<lambda>_. None)(''curveSamples'' \<mapsto> (window_name, IntField 80),
       ''projTolerance'' \<mapsto> (window_name, FloatField 0.01))\<rparr>) = (80, 0.01, False, True) \<and>
   projection_settings (easel\<lparr>controls := (\<lambda>_. None)(''curveSamples'' \<mapsto> (window_name, IntField 80),
       ''projTolerance'' \<mapsto> (window_name, FloatField 0.01),
       ''pointsOnEdges'' \<mapsto> (window_name, CheckBox True))\<rparr>) = (80, 0.01, True, True) \<and>
   ls_type projected CurveVarGroup \<noteq> [] \<and> checkBox_query projected ''detachEdges'' = None \<and>
   option_vars (scene_of (execute_split orphaned projected)) ''splitPolyWithCurveOperation'' = Some 2 \<and>
   setup_geometry init nothing_selected =
     Returned init (cmds_warning nothing_selected ''Please select a geometry object first!'') \<and>
   activate_paint_tool init studio = Returned init (cmds_warning studio ''Please setup geometry first!'') \<and>
   convert_and_project init studio =
     Returned init (cmds_warning studio ''No Paint Effects stroke found!'') \<and>
   execute_split init studio = Returned init (cmds_warning studio ''No projected curve found!'') \<and>
   target_geo orphaned = Some ''pCube1'' \<and> ''pCube1'' \<notin> set (nodes cleared) \<and>
   \<not> returned (activate_paint_tool orphaned cleared)"
proof -
  note e = easel_facts and f = example_scene_facts
  let ?c1 = "easel\<lparr>controls := (\<lambda>_. None)(''curveSamples'' \<mapsto> (window_name, IntField 80))\<rparr>"
  let ?c2 = "easel\<lparr>controls := (\<lambda>_. None)(''curveSamples'' \<mapsto> (window_name, IntField 80),
       ''projTolerance'' \<mapsto> (window_name, FloatField 0.01))\<rparr>"
  let ?c3 = "easel\<lparr>controls := (\<lambda>_. None)(''curveSamples'' \<mapsto> (window_name, IntField 80),
       ''projTolerance'' \<mapsto> (window_name, FloatField 0.01),
       ''pointsOnEdges'' \<mapsto> (window_name, CheckBox True))\<rparr>"
  have q1: "intField_query ?c1 ''curveSamples'' = Some 80" "floatField_query ?c1 ''projTolerance'' = None"
    by (simp_all add: intField_query_def floatField_query_def)
  have q2: "intField_query ?c2 ''curveSamples'' = Some 80"
    "floatField_query ?c2 ''projTolerance'' = Some 0.01" "checkBox_query ?c2 ''pointsOnEdges'' = None"
    by (simp_all add: intField_query_def floatField_query_def checkBox_query_def)
  have q3: "intField_query ?c3 ''curveSamples'' = Some 80"
    "floatField_query ?c3 ''projTolerance'' = Some 0.01"
    "checkBox_query ?c3 ''pointsOnEdges'' = Some True" "checkBox_query ?c3 ''automatic'' = None"
    by (simp_all add: intField_query_def floatField_query_def checkBox_query_def)
  have 1: "returned (activate_paint_effects painting (easel\<lparr>mel_raises := (\<lambda>_. True), dyn_wire_dam := None\<rparr>))"
    using soft_failures_fall_back [of painting easel] e(1,2) by simp
  have 2: "projection_settings easel = (50, 0.001, False, True)"
    using soft_failures_fall_back [of init easel] e(3) by simp
  have 3: "projection_settings ?c1 = (80, 0.001, False, True)"
    using soft_failures_fall_back [of init ?c1] q1 by blast
  have 4: "projection_settings ?c2 = (80, 0.01, False, True)"
    using soft_failures_fall_back [of init ?c2] q2 by blast
  have 5: "projection_settings ?c3 = (80, 0.01, True, True)"
    using soft_failures_fall_back [of init ?c3] q3 by blast
  have 6: "option_vars (scene_of (execute_split orphaned projected)) ''splitPolyWithCurveOperation'' = Some 2"
    using soft_failures_fall_back [of orphaned projected] f(5,6) by simp
  have 7: "setup_geometry init nothing_selected =
     Returned init (cmds_warning nothing_selected ''Please select a geometry object first!'')"
    using soft_failures_fall_back [of init nothing_selected] e(8) by blast
  have 8: "activate_paint_tool init studio = Returned init (cmds_warning studio ''Please setup geometry first!'')"
    "convert_and_project init studio =
     Returned init (cmds_warning studio ''No Paint Effects stroke found!'')"
    "execute_split init studio = Returned init (cmds_warning studio ''No projected curve found!'')"
    using soft_failures_fall_back [of init studio] e(6,7) f(7) by blast+
  have 9: "\<not> returned (activate_paint_tool orphaned cleared)"
    using soft_failures_fall_back [of orphaned cleared] e(4,5) by blast
  show ?thesis using 1 2 3 4 5 6 7 8 9 e f(5,6) by simp
qed







text \<open>
  Claim C1, evaluated. In the example session (setup of the cube, paint activation, one
  stroke drawn, conversion) \<^verbatim>\<open>cancel_operation\<close> returns and deletes the duplicated
  geometry and the temporary plane only: the stroke, the reference curve and the
  curve-variation group that the session left in the scene are still there.
\<close>

theorem cancel_leaves_conversion_nodes:
  "nodes studio = [''persp'', ''perspShape'', ''pCube1'', ''pCubeShape1''] \<and>
   returned converted \<and> returned cancelled \<and>
   nodes (scene_of cancelled) =
     [''persp'', ''perspShape'', ''pCube1'', ''pCubeShape1'', ''stroke1'', ''stroke1Shape'',
      ''projCurve_01'', ''projCurve_01Shape'', ''polyProjectionCurve1'', ''polyProjectCurve1'']"
  by code_simp

end
